theory Spec2Isabelle
  imports Complex_Main "HOL-Library.AList" "HOL-Library.Sublist"
begin

section \<open>Python values, exceptions and dictionaries\<close>

text \<open>
  The values a remote call of the conformance service can hand back to the probe script:
  \<open>None\<close>, a number (Python compares \<open>int\<close>, \<open>float\<close> and \<open>bool\<close> by numeric value, and the
  tolerance test of the unary probe is read over the reals), a string, or a list (also used
  for the batches a stream yields, one element per batch).
\<close>

datatype pyval = PyNone | PyNum real | PyStr string | PyList "pyval list"

text \<open>
  An exception object: the name of its class (\<open>type(e).__name__\<close>), whether the class derives
  from \<open>Exception\<close> (so that \<open>except Exception\<close> intercepts it; \<open>KeyboardInterrupt\<close>,
  \<open>SystemExit\<close> and \<open>GeneratorExit\<close> do not), and the status with which the interpreter
  exits when nothing intercepts it.
\<close>

datatype exc = Exc (exc_type_name: string) (exc_is_Exception: bool) (exc_exit_status: int)

definition TypeError :: exc where
  "TypeError = Exc ''TypeError'' True 1"

text \<open>
  What happens when the script waits for an operation: it returns a value, it raises, or it
  does not come back within the time the enclosing subprocess is given.
\<close>

datatype 'a outcome = Returns 'a | Raises exc | Hangs

text \<open>A \<open>dict\<close> with string keys, in insertion order; \<open>d[k] = v\<close> is \<open>AList.update k v d\<close>.\<close>

type_synonym 'v dict = "(string \<times> 'v) list"

definition dict_update :: "'v dict \<Rightarrow> 'v dict \<Rightarrow> 'v dict" where
  \<comment> \<open>\<open>d.update(e)\<close>: the items of \<open>e\<close> are stored into \<open>d\<close> one after the other\<close>
  "dict_update d e = fold (\<lambda>(k, v). AList.update k v) e d"

text \<open>\<open>abs(r - a) < eps\<close>; subtracting a float from anything but a number raises \<open>TypeError\<close>.\<close>

fun py_abs_diff_lt :: "real \<Rightarrow> real \<Rightarrow> pyval \<Rightarrow> exc + bool" where
  "py_abs_diff_lt a eps (PyNum x) = Inr (\<bar>x - a\<bar> < eps)"
| "py_abs_diff_lt a eps v = Inl TypeError"

text \<open>\<open>len(v)\<close>, and the number of rounds of \<open>for batch in v\<close>: defined on strings and lists.\<close>

fun py_len :: "pyval \<Rightarrow> exc + nat" where
  "py_len (PyStr s) = Inr (length s)"
| "py_len (PyList xs) = Inr (length xs)"
| "py_len v = Inl TypeError"

section \<open>The catalog\<close>

definition PATTERNS :: "string list" where
  "PATTERNS = [''unary'', ''unary_void'', ''producer'', ''producer_with_header'',
     ''exchange'', ''exchange_with_header'']"

definition FEATURES :: "string list" where
  "FEATURES = [''introspection'', ''client_logging'', ''error_propagation'', ''complex_types'',
     ''optional_types'', ''dataclass_types'', ''annotated_types'', ''authentication'',
     ''external_storage'', ''opentelemetry'']"

section \<open>The world outside the script\<close>

text \<open>
  Everything the program reaches through \<open>subprocess\<close>, the file system, the clock and the
  \<open>vgi_rpc\<close> client is an oracle over a state \<open>'s\<close> of the outside world that every
  operation may change.
\<close>

datatype run_error = TimeoutExpired | FileNotFoundError

record completed_process =
  returncode :: int
  stdout :: string

text \<open>
  The operations the probe script performs on the worker: \<open>Connect cmd\<close> stands for the two
  imports and \<open>connect(ConformanceService, cmd)\<close> entering the \<open>with\<close> block, \<open>Close\<close> for
  leaving that block (it returns when \<open>__exit__\<close> returns without suppressing a pending
  exception), \<open>Introspect\<close> for importing and calling \<open>introspect(proxy)\<close> and reading
  \<open>desc.methods\<close>, \<open>CountStream n\<close> for calling \<open>count_stream(n=n)\<close> and draining the stream
  (its value is the list of batches), and the others for the method calls of the same name
  with their arguments.
\<close>

datatype request =
    Connect "string list"
  | Add real real
  | VoidMethod
  | Introspect
  | RaiseError
  | EchoList pyval
  | EchoOptional pyval
  | CountStream int
  | Close

record 's world =
  path_exists :: "'s \<Rightarrow> string \<Rightarrow> bool"
  subprocess_run :: "'s \<Rightarrow> string list \<Rightarrow> string option \<Rightarrow> nat option
                       \<Rightarrow> (run_error + completed_process) \<times> 's"
  python_spawns :: "'s \<Rightarrow> string \<Rightarrow> bool"
  rpc :: "'s \<Rightarrow> request \<Rightarrow> pyval outcome \<times> 's"
  utc_now :: "'s \<Rightarrow> string"

section \<open>The probe script\<close>

text \<open>
  The state of the running script: the outside world, the \<open>results\<close> dictionary with its
  two sub-dictionaries, and (a ghost field) the operations performed so far with what
  each of them did.
\<close>

record 's script_state =
  ss_world :: 's
  ss_log :: "(request \<times> pyval outcome) list"
  ss_patterns :: "bool dict"
  ss_features :: "bool dict"

definition set_pattern :: "string \<Rightarrow> bool \<Rightarrow> 's script_state \<Rightarrow> 's script_state" where
  "set_pattern k b st = st\<lparr>ss_patterns := AList.update k b (ss_patterns st)\<rparr>"

definition set_feature :: "string \<Rightarrow> bool \<Rightarrow> 's script_state \<Rightarrow> 's script_state" where
  "set_feature k b st = st\<lparr>ss_features := AList.update k b (ss_features st)\<rparr>"

definition invoke :: "'s world \<Rightarrow> request \<Rightarrow> 's script_state \<Rightarrow> pyval outcome \<times> 's script_state" where
  "invoke W rq st =
     (case rpc W (ss_world st) rq of
        (out, s') \<Rightarrow> (out, st\<lparr>ss_world := s', ss_log := ss_log st @ [(rq, out)]\<rparr>))"

text \<open>
  How a block of the script ends: it falls through, an exception leaves it, or it never
  ends.
\<close>

datatype 'a attempt = Done 'a | Escaped exc 'a | Stuck 'a

text \<open>
  The shape shared by the probes:
  \<^verbatim>\<open>
  try:
      r = <call>
      results[...][key] = <body r>
  except Exception as e:
      results[...][key] = <handler e>
  \<close>
  An exception of the call or of the body that is an \<open>Exception\<close> is intercepted; any other
  leaves the block.
\<close>

definition try_except ::
  "pyval outcome \<times> 'st \<Rightarrow> (pyval \<Rightarrow> exc + bool) \<Rightarrow> (exc \<Rightarrow> bool) \<Rightarrow> (bool \<Rightarrow> 'st \<Rightarrow> 'st) \<Rightarrow> 'st attempt" where
  "try_except called body handler store =
     (case called of
        (Returns r, st) \<Rightarrow>
          (case body r of
             Inr b \<Rightarrow> Done (store b st)
           | Inl e \<Rightarrow> if exc_is_Exception e then Done (store (handler e) st) else Escaped e st)
      | (Raises e, st) \<Rightarrow>
          if exc_is_Exception e then Done (store (handler e) st) else Escaped e st
      | (Hangs, st) \<Rightarrow> Stuck st)"

definition probe_unary :: "'s world \<Rightarrow> 's script_state \<Rightarrow> 's script_state attempt" where
  "probe_unary W st =
     try_except (invoke W (Add 1 2) st)
       (py_abs_diff_lt 3 (1 / 1000)) (\<lambda>e. False) (set_pattern ''unary'')"

definition probe_unary_void :: "'s world \<Rightarrow> 's script_state \<Rightarrow> 's script_state attempt" where
  "probe_unary_void W st =
     try_except (invoke W VoidMethod st)
       (\<lambda>r. Inr True) (\<lambda>e. False) (set_pattern ''unary_void'')"

definition probe_introspection :: "'s world \<Rightarrow> 's script_state \<Rightarrow> 's script_state attempt" where
  "probe_introspection W st =
     try_except (invoke W Introspect st)
       (\<lambda>methods. map_sum id (\<lambda>n. n > 0) (py_len methods)) (\<lambda>e. False)
       (set_feature ''introspection'')"

definition probe_error_propagation :: "'s world \<Rightarrow> 's script_state \<Rightarrow> 's script_state attempt" where
  "probe_error_propagation W st =
     try_except (invoke W RaiseError st)
       (\<lambda>r. Inr False) (\<lambda>e. sublist ''RpcError'' (exc_type_name e))
       (set_feature ''error_propagation'')"

definition probe_complex_types :: "'s world \<Rightarrow> 's script_state \<Rightarrow> 's script_state attempt" where
  "probe_complex_types W st =
     try_except (invoke W (EchoList (PyList [PyNum 1, PyNum 2, PyNum 3])) st)
       (\<lambda>r. Inr (r = PyList [PyNum 1, PyNum 2, PyNum 3])) (\<lambda>e. False)
       (set_feature ''complex_types'')"

definition probe_optional_types :: "'s world \<Rightarrow> 's script_state \<Rightarrow> 's script_state attempt" where
  "probe_optional_types W st =
     try_except (invoke W (EchoOptional PyNone) st)
       (\<lambda>r. Inr (r = PyNone)) (\<lambda>e. False) (set_feature ''optional_types'')"

definition probe_producer :: "'s world \<Rightarrow> 's script_state \<Rightarrow> 's script_state attempt" where
  "probe_producer W st =
     try_except (invoke W (CountStream 3) st)
       (\<lambda>batches. map_sum id (\<lambda>count. count = 3) (py_len batches)) (\<lambda>e. False)
       (set_pattern ''producer'')"

text \<open>
  The exchange probe performs no call: its \<open>try\<close> block holds the one assignment
  \<open>results["patterns"]["exchange"] = True\<close>, which cannot raise.
\<close>

definition probe_exchange :: "'s world \<Rightarrow> 's script_state \<Rightarrow> 's script_state attempt" where
  "probe_exchange W st = Done (set_pattern ''exchange'' True st)"

text \<open>Statements one after the other: the first that does not fall through ends the block.\<close>

fun in_sequence :: "('st \<Rightarrow> 'st attempt) list \<Rightarrow> 'st \<Rightarrow> 'st attempt" where
  "in_sequence [] st = Done st"
| "in_sequence (p # ps) st =
     (case p st of
        Done st' \<Rightarrow> in_sequence ps st'
      | Escaped e st' \<Rightarrow> Escaped e st'
      | Stuck st' \<Rightarrow> Stuck st')"

definition with_body :: "'s world \<Rightarrow> 's script_state \<Rightarrow> 's script_state attempt" where
  "with_body W =
     in_sequence [probe_unary W, probe_unary_void W, probe_introspection W,
       probe_error_propagation W, probe_complex_types W, probe_optional_types W,
       probe_producer W, probe_exchange W]"

text \<open>
  What the script prints: \<open>json.dumps\<close> of either \<open>results\<close> or of the dictionary of the
  outer handler, which has an \<open>error\<close> entry and two empty sub-dictionaries.
\<close>

record script_doc =
  doc_error :: "exc option"
  doc_patterns :: "bool dict"
  doc_features :: "bool dict"

datatype script_exit = Printed script_doc | Died exc | Hung

definition outer_except :: "exc \<Rightarrow> 'st \<Rightarrow> script_exit \<times> 'st" where
  \<comment> \<open>the outermost \<open>except Exception as e\<close> of the script\<close>
  "outer_except e st =
     (if exc_is_Exception e
      then (Printed \<lparr>doc_error = Some e, doc_patterns = [], doc_features = []\<rparr>, st)
      else (Died e, st))"

definition leave_with :: "'s world \<Rightarrow> exc option \<Rightarrow> 's script_state \<Rightarrow> script_exit \<times> 's script_state" where
  \<comment> \<open>leaving the \<open>with\<close> block, normally or with a pending exception, then \<open>print\<close>\<close>
  "leave_with W pending st =
     (case invoke W Close st of
        (Returns u, st') \<Rightarrow>
          (case pending of
             None \<Rightarrow> (Printed \<lparr>doc_error = None, doc_patterns = ss_patterns st',
                                 doc_features = ss_features st'\<rparr>, st')
           | Some e \<Rightarrow> outer_except e st')
      | (Raises e', st') \<Rightarrow> outer_except e' st'
      | (Hangs, st') \<Rightarrow> (Hung, st'))"

definition probe_script :: "'s world \<Rightarrow> string list \<Rightarrow> 's \<Rightarrow> script_exit \<times> 's script_state" where
  "probe_script W worker_cmd s =
     (case invoke W (Connect worker_cmd)
             \<lparr>ss_world = s, ss_log = [], ss_patterns = [], ss_features = []\<rparr> of
        (Returns proxy, st) \<Rightarrow>
          (case with_body W st of
             Done st' \<Rightarrow> leave_with W None st'
           | Escaped e st' \<Rightarrow> leave_with W (Some e) st'
           | Stuck st' \<Rightarrow> (Hung, st'))
      | (Raises e, st) \<Rightarrow> outer_except e st
      | (Hangs, st) \<Rightarrow> (Hung, st))"

section \<open>probe_capabilities\<close>

text \<open>
  The subprocess that runs the script under \<open>sys.executable\<close> with a budget of 60 seconds.
  Its standard output is kept as the list of JSON documents printed, and
  \<open>json.loads\<close> gives back the one document of a one-document output unchanged.
\<close>

record probe_process =
  pp_returncode :: int
  pp_stdout :: "script_doc list"

definition run_probe_script ::
  "'s world \<Rightarrow> 's \<Rightarrow> string list \<Rightarrow> string \<Rightarrow> (run_error + probe_process) \<times> 's" where
  "run_probe_script W s worker_cmd repo_dir =
     (if \<not> python_spawns W s repo_dir then (Inl FileNotFoundError, s)
      else case probe_script W worker_cmd s of
             (Printed doc, st) \<Rightarrow> (Inr \<lparr>pp_returncode = 0, pp_stdout = [doc]\<rparr>, ss_world st)
           | (Died e, st) \<Rightarrow> (Inr \<lparr>pp_returncode = exc_exit_status e, pp_stdout = []\<rparr>, ss_world st)
           | (Hung, st) \<Rightarrow> (Inl TimeoutExpired, ss_world st))"

fun json_loads :: "script_doc list \<Rightarrow> script_doc option" where
  \<comment> \<open>\<open>None\<close> is \<open>JSONDecodeError\<close>: no document, or extra data after the first\<close>
  "json_loads [doc] = Some doc"
| "json_loads out = None"

definition probe_capabilities ::
  "'s world \<Rightarrow> 's \<Rightarrow> string list option \<Rightarrow> string \<Rightarrow> (bool dict \<times> bool dict) \<times> 's" where
  "probe_capabilities W s worker_cmd repo_dir =
     (let patterns = map (\<lambda>p. (p, False)) PATTERNS;
          features = map (\<lambda>f. (f, False)) FEATURES
      in case worker_cmd of
           None \<Rightarrow> ((patterns, features), s)
         | Some [] \<Rightarrow> ((patterns, features), s)
         | Some cmd \<Rightarrow>
             (case run_probe_script W s cmd repo_dir of
                (Inr result, s') \<Rightarrow>
                  if pp_returncode result = 0
                  then (case json_loads (pp_stdout result) of
                          Some data \<Rightarrow>
                            ((dict_update patterns (doc_patterns data),
                              dict_update features (doc_features data)), s')
                        | None \<Rightarrow> ((patterns, features), s'))
                  else ((patterns, features), s')
              | (Inl err, s') \<Rightarrow> ((patterns, features), s')))"

section \<open>The configured implementations\<close>

record lang_config =
  cfg_repo :: string
  cfg_docs :: "string option"
  cfg_package_url :: "string option"
  cfg_build_cmd :: "string list option"
  cfg_worker_cmd :: "string list option"
  cfg_version_cmd :: "string list option"
  cfg_known_transports :: "bool dict"

definition transports_of :: "bool \<Rightarrow> bool \<Rightarrow> bool \<Rightarrow> bool \<Rightarrow> bool \<Rightarrow> bool \<Rightarrow> bool dict" where
  \<comment> \<open>the six entries of a \<open>known_transports\<close> literal, in the order the source writes them\<close>
  "transports_of pipe subprocess unix_socket shared_memory http worker_pool =
     [(''pipe'', pipe), (''subprocess'', subprocess), (''unix_socket'', unix_socket),
      (''shared_memory'', shared_memory), (''http'', http), (''worker_pool'', worker_pool)]"

definition LANGUAGES :: "(string \<times> lang_config) list" where
  "LANGUAGES =
    [(''python'',
       \<lparr>cfg_repo = ''https://github.com/Query-farm/vgi-rpc-python'',
        cfg_docs = Some ''https://vgi-rpc-python.query.farm'',
        cfg_package_url = Some ''https://pypi.org/project/vgi-rpc/'',
        cfg_build_cmd = Some [''uv'', ''sync'', ''--all-extras''],
        cfg_worker_cmd = Some [''uv'', ''run'', ''python'', ''-m'', ''vgi_rpc.conformance.worker''],
        cfg_version_cmd = Some [''uv'', ''run'', ''python'', ''-c'',
                                ''import vgi_rpc; print(vgi_rpc.__version__)''],
        cfg_known_transports = transports_of True True True True True True\<rparr>),
     (''typescript'',
       \<lparr>cfg_repo = ''https://github.com/Query-farm/vgi-rpc-ts'',
        cfg_docs = None,
        cfg_package_url = None,
        cfg_build_cmd = Some [''bun'', ''install''],
        cfg_worker_cmd = Some [''bun'', ''run'', ''src/conformance/worker.ts''],
        cfg_version_cmd = Some [''bun'', ''run'', ''-e'',
          ''const pkg = require('./package.json'); console.log(pkg.version)''],
        cfg_known_transports = transports_of False True False False False False\<rparr>),
     (''go'',
       \<lparr>cfg_repo = ''https://github.com/Query-farm/vgi-rpc-go'',
        cfg_docs = None,
        cfg_package_url = None,
        cfg_build_cmd = Some [''go'', ''build'', ''./...''],
        cfg_worker_cmd = Some [''go'', ''run'', ''./cmd/conformance-worker''],
        cfg_version_cmd = None,
        cfg_known_transports = transports_of False True False False False False\<rparr>),
     (''cpp'',
       \<lparr>cfg_repo = ''https://github.com/Query-farm/vgi-rpc-cpp'',
        cfg_docs = None,
        cfg_package_url = None,
        cfg_build_cmd = None,
        cfg_worker_cmd = None,
        cfg_version_cmd = None,
        cfg_known_transports = transports_of False False False False False False\<rparr>)]"

section \<open>Cloning, version and build\<close>

text \<open>
  \<open>clone_or_pull\<close> has no handler around \<open>subprocess.run\<close>: what that raises leaves the
  function (the left summand).
\<close>

definition clone_or_pull :: "'s world \<Rightarrow> 's \<Rightarrow> string \<Rightarrow> string \<Rightarrow> (run_error + bool) \<times> 's" where
  "clone_or_pull W s repo_url target_dir =
     (if path_exists W s target_dir
      then (case subprocess_run W s [''git'', ''pull'', ''--ff-only''] (Some target_dir) None of
              (Inr result, s') \<Rightarrow> (Inr (returncode result = 0), s')
            | (Inl err, s') \<Rightarrow> (Inl err, s'))
      else (case subprocess_run W s [''git'', ''clone'', ''--depth=1'', repo_url, target_dir]
                   None None of
              (Inr result, s') \<Rightarrow> (Inr (returncode result = 0), s')
            | (Inl err, s') \<Rightarrow> (Inl err, s')))"

definition is_space :: "char \<Rightarrow> bool" where
  \<comment> \<open>the ASCII characters \<open>str.strip()\<close> removes\<close>
  "is_space c = (c \<in> set [CHR '' '', CHR 0x09, CHR 0x0A, CHR 0x0B, CHR 0x0C, CHR 0x0D,
                          CHR 0x1C, CHR 0x1D, CHR 0x1E, CHR 0x1F])"

definition strip :: "string \<Rightarrow> string" where
  "strip t = rev (dropWhile is_space (rev (dropWhile is_space t)))"

definition get_version :: "'s world \<Rightarrow> 's \<Rightarrow> lang_config \<Rightarrow> string \<Rightarrow> string option \<times> 's" where
  "get_version W s lang_config repo_dir =
     (case cfg_version_cmd lang_config of
        None \<Rightarrow> (None, s)
      | Some [] \<Rightarrow> (None, s)
      | Some version_cmd \<Rightarrow>
          (case subprocess_run W s version_cmd (Some repo_dir) (Some 30) of
             (Inr result, s') \<Rightarrow>
               if returncode result = 0 then (Some (strip (stdout result)), s') else (None, s')
           | (Inl err, s') \<Rightarrow> (None, s')))"

definition build_worker :: "'s world \<Rightarrow> 's \<Rightarrow> lang_config \<Rightarrow> string \<Rightarrow> bool \<times> 's" where
  "build_worker W s lang_config repo_dir =
     (case cfg_build_cmd lang_config of
        None \<Rightarrow> (False, s)
      | Some [] \<Rightarrow> (False, s)
      | Some build_cmd \<Rightarrow>
          (case subprocess_run W s build_cmd (Some repo_dir) (Some 120) of
             (Inr result, s') \<Rightarrow> (returncode result = 0, s')
           | (Inl err, s') \<Rightarrow> (False, s')))"

section \<open>test_all_capabilities\<close>

text \<open>The JSON values of a capability record, itself a dictionary.\<close>

datatype jvalue = JNull | JStr string | JFlags "bool dict"

definition opt_str :: "string option \<Rightarrow> jvalue" where
  "opt_str v = (case v of None \<Rightarrow> JNull | Some t \<Rightarrow> JStr t)"

definition capability_record ::
  "string option \<Rightarrow> lang_config \<Rightarrow> bool dict \<Rightarrow> bool dict \<Rightarrow> jvalue dict" where
  \<comment> \<open>the dictionary literal both branches of the loop store\<close>
  "capability_record version config patterns features =
     [(''version'', opt_str version),
      (''repo'', JStr (cfg_repo config)),
      (''docs'', opt_str (cfg_docs config)),
      (''package_url'', opt_str (cfg_package_url config)),
      (''transports'', JFlags (cfg_known_transports config)),
      (''patterns'', JFlags patterns),
      (''features'', JFlags features)]"

definition truthy :: "string list option \<Rightarrow> bool" where
  \<comment> \<open>the truth value of a command that is \<open>None\<close> or a list\<close>
  "truthy cmd = (case cmd of None \<Rightarrow> False | Some [] \<Rightarrow> False | Some c \<Rightarrow> True)"

definition build_step ::
  "'s world \<Rightarrow> 's \<Rightarrow> lang_config \<Rightarrow> string \<Rightarrow> string list option \<times> 's" where
  \<comment> \<open>the "Build" paragraph of the loop: the worker command to probe with\<close>
  "build_step W s config repo_dir =
     (if truthy (cfg_build_cmd config)
      then (case build_worker W s config repo_dir of
              (built, s') \<Rightarrow> (if \<not> built then None else cfg_worker_cmd config, s'))
      else (cfg_worker_cmd config, s))"

definition test_language ::
  "'s world \<Rightarrow> string \<Rightarrow> string \<times> lang_config \<Rightarrow> 's \<Rightarrow> jvalue dict dict
     \<Rightarrow> run_error + (jvalue dict dict \<times> 's)" where
  \<comment> \<open>one round of the loop over \<open>LANGUAGES.items()\<close>\<close>
  "test_language W repos_dir item s languages =
     (case item of (lang_name, config) \<Rightarrow>
        (let repo_dir = repos_dir @ ''/'' @ ''vgi-rpc-'' @ lang_name in
         (case clone_or_pull W s (cfg_repo config) repo_dir of
            (Inl err, s1) \<Rightarrow> Inl err
          | (Inr cloned, s1) \<Rightarrow>
              (if \<not> cloned \<and> \<not> path_exists W s1 repo_dir
               then Inr (AList.update lang_name
                           (capability_record None config
                              (map (\<lambda>p. (p, False)) PATTERNS)
                              (map (\<lambda>f. (f, False)) FEATURES))
                           languages, s1)
               else
                 (case get_version W s1 config repo_dir of
                    (version, s2) \<Rightarrow>
                      (case build_step W s2 config repo_dir of
                         (worker_cmd, s3) \<Rightarrow>
                           (case probe_capabilities W s3 worker_cmd repo_dir of
                              ((patterns, features), s4) \<Rightarrow>
                                Inr (AList.update lang_name
                                       (capability_record version config patterns features)
                                       languages, s4))))))))"

fun for_languages ::
  "'s world \<Rightarrow> string \<Rightarrow> (string \<times> lang_config) list \<Rightarrow> 's \<Rightarrow> jvalue dict dict
     \<Rightarrow> run_error + (jvalue dict dict \<times> 's)" where
  "for_languages W repos_dir [] s languages = Inr (languages, s)"
| "for_languages W repos_dir (item # items) s languages =
     (case test_language W repos_dir item s languages of
        Inl err \<Rightarrow> Inl err
      | Inr (languages', s') \<Rightarrow> for_languages W repos_dir items s' languages')"

record snapshot =
  generated_at :: string
  languages :: "jvalue dict dict"

definition test_all_capabilities :: "'s world \<Rightarrow> 's \<Rightarrow> string \<Rightarrow> run_error + (snapshot \<times> 's)" where
  "test_all_capabilities W s repos_dir =
     (case for_languages W repos_dir LANGUAGES s [] of
        Inl err \<Rightarrow> Inl err
      | Inr (langs, s') \<Rightarrow> Inr (\<lparr>generated_at = utc_now W s, languages = langs\<rparr>, s'))"

section \<open>Vocabulary of the properties\<close>

text \<open>The result \<open>probe_capabilities\<close> starts from: every key of the catalog, each \<open>False\<close>.\<close>

definition zero_result :: "bool dict \<times> bool dict" where
  "zero_result = (map (\<lambda>p. (p, False)) PATTERNS, map (\<lambda>f. (f, False)) FEATURES)"

text \<open>
  The operations performed on the worker in the course of one \<open>probe_capabilities\<close>, each
  with what it did: none when the function returns early or the interpreter does not
  start, else those of the script.
\<close>

definition probe_log ::
  "'s world \<Rightarrow> 's \<Rightarrow> string list option \<Rightarrow> string \<Rightarrow> (request \<times> pyval outcome) list" where
  "probe_log W s worker_cmd repo_dir =
     (case worker_cmd of
        None \<Rightarrow> []
      | Some [] \<Rightarrow> []
      | Some cmd \<Rightarrow>
          if python_spawns W s repo_dir then ss_log (snd (probe_script W cmd s)) else [])"

text \<open>
  A session is established when there is a command, the script starts and
  \<open>connect\<close> returns a proxy.
\<close>

definition session_established :: "'s world \<Rightarrow> 's \<Rightarrow> string list option \<Rightarrow> string \<Rightarrow> bool" where
  "session_established W s worker_cmd repo_dir =
     (case worker_cmd of
        None \<Rightarrow> False
      | Some [] \<Rightarrow> False
      | Some cmd \<Rightarrow>
          python_spawns W s repo_dir \<and>
          (case fst (rpc W s (Connect cmd)) of Returns proxy \<Rightarrow> True | Raises e \<Rightarrow> False
           | Hangs \<Rightarrow> False))"

text \<open>The seven calls of the script, in its order, each with the key its probe writes.\<close>

datatype category = Pattern | Feature

definition probe_table :: "(request \<times> category \<times> string) list" where
  "probe_table =
     [(Add 1 2, Pattern, ''unary''),
      (VoidMethod, Pattern, ''unary_void''),
      (Introspect, Feature, ''introspection''),
      (RaiseError, Feature, ''error_propagation''),
      (EchoList (PyList [PyNum 1, PyNum 2, PyNum 3]), Feature, ''complex_types''),
      (EchoOptional PyNone, Feature, ''optional_types''),
      (CountStream 3, Pattern, ''producer'')]"

definition recorded :: "bool dict \<times> bool dict \<Rightarrow> category \<Rightarrow> string \<Rightarrow> bool option" where
  "recorded res cat k =
     (case cat of Pattern \<Rightarrow> map_of (fst res) k | Feature \<Rightarrow> map_of (snd res) k)"

text \<open>
  An outcome a probe keeps to itself: the call returns (whatever the value), or raises
  something \<open>except Exception\<close> intercepts.
\<close>

definition intercepted :: "pyval outcome \<Rightarrow> bool" where
  "intercepted out =
     (case out of Returns r \<Rightarrow> True | Raises e \<Rightarrow> exc_is_Exception e | Hangs \<Rightarrow> False)"

text \<open>
  The check the script applies to what each of its calls returns: the sum within 0.001 of
  3.0, a non-empty method list, the list and the \<open>None\<close> echoed unchanged, three batches.
  The probe of \<open>void_method\<close> has no check, so every value passes; \<open>raise_error\<close> is meant
  to raise, so no value passes.
\<close>

fun passes :: "request \<Rightarrow> pyval \<Rightarrow> bool" where
  "passes (Add a b) r = (case r of PyNum x \<Rightarrow> \<bar>x - 3\<bar> < 1 / 1000 | _ \<Rightarrow> False)"
| "passes VoidMethod r = True"
| "passes Introspect r = (case py_len r of Inr n \<Rightarrow> 0 < n | Inl e \<Rightarrow> False)"
| "passes RaiseError r = False"
| "passes (EchoList v) r = (r = PyList [PyNum 1, PyNum 2, PyNum 3])"
| "passes (EchoOptional v) r = (r = PyNone)"
| "passes (CountStream n) r = (py_len r = Inr 3)"
| "passes (Connect cmd) r = True"
| "passes Close r = True"

text \<open>
  The outcome of a call that makes its probe store \<open>True\<close>: a value that passes the check
  or, for \<open>raise_error\<close> alone, an exception whose class name contains \<open>RpcError\<close>.
\<close>

definition accepted :: "request \<Rightarrow> pyval outcome \<Rightarrow> bool" where
  "accepted c out =
     (case out of
        Returns r \<Rightarrow> passes c r
      | Raises e \<Rightarrow> c = RaiseError \<and> sublist ''RpcError'' (exc_type_name e)
      | Hangs \<Rightarrow> False)"

text \<open>The same world, except that the operation \<open>c\<close> always has the outcome \<open>out\<close>.\<close>

definition with_outcome :: "'s world \<Rightarrow> request \<Rightarrow> pyval outcome \<Rightarrow> 's world" where
  "with_outcome W c out =
     W\<lparr>rpc := \<lambda>s rq. if rq = c then (out, snd (rpc W s rq)) else rpc W s rq\<rparr>"

text \<open>What a probe stores for an outcome of its call that it keeps to itself.\<close>

definition verdict :: "(pyval \<Rightarrow> exc + bool) \<Rightarrow> (exc \<Rightarrow> bool) \<Rightarrow> pyval outcome \<Rightarrow> bool" where
  "verdict body handler out =
     (case out of
        Returns r \<Rightarrow> (case body r of Inr b \<Rightarrow> b | Inl e \<Rightarrow> handler e)
      | Raises e \<Rightarrow> handler e
      | Hangs \<Rightarrow> False)"

text \<open>
  The script ran to its end and printed \<open>results\<close> (not the dictionary of its outer
  handler).
\<close>

definition results_printed :: "'s world \<Rightarrow> 's \<Rightarrow> string list option \<Rightarrow> string \<Rightarrow> bool" where
  "results_printed W s worker_cmd repo_dir =
     (case worker_cmd of
        None \<Rightarrow> False
      | Some [] \<Rightarrow> False
      | Some cmd \<Rightarrow>
          python_spawns W s repo_dir \<and>
          (case fst (probe_script W cmd s) of
             Printed doc \<Rightarrow> doc_error doc = None
           | Died e \<Rightarrow> False
           | Hung \<Rightarrow> False))"

text \<open>What each probe stores, as a function of the outcome of its call.\<close>

abbreviation v_unary :: "pyval outcome \<Rightarrow> bool" where
  "v_unary \<equiv> verdict (py_abs_diff_lt 3 (1 / 1000)) (\<lambda>e. False)"
abbreviation v_unary_void :: "pyval outcome \<Rightarrow> bool" where
  "v_unary_void \<equiv> verdict (\<lambda>r. Inr True) (\<lambda>e. False)"
abbreviation v_introspection :: "pyval outcome \<Rightarrow> bool" where
  "v_introspection \<equiv> verdict (\<lambda>methods. map_sum id (\<lambda>n. n > 0) (py_len methods)) (\<lambda>e. False)"
abbreviation v_error_propagation :: "pyval outcome \<Rightarrow> bool" where
  "v_error_propagation \<equiv> verdict (\<lambda>r. Inr False) (\<lambda>e. sublist ''RpcError'' (exc_type_name e))"
abbreviation v_complex_types :: "pyval outcome \<Rightarrow> bool" where
  "v_complex_types \<equiv> verdict (\<lambda>r. Inr (r = PyList [PyNum 1, PyNum 2, PyNum 3])) (\<lambda>e. False)"
abbreviation v_optional_types :: "pyval outcome \<Rightarrow> bool" where
  "v_optional_types \<equiv> verdict (\<lambda>r. Inr (r = PyNone)) (\<lambda>e. False)"
abbreviation v_producer :: "pyval outcome \<Rightarrow> bool" where
  "v_producer \<equiv> verdict (\<lambda>batches. map_sum id (\<lambda>count. count = 3) (py_len batches)) (\<lambda>e. False)"

text \<open>A run of the script in which every probe was reached and the results were printed.\<close>

definition full_run ::
  "'s world \<Rightarrow> string list \<Rightarrow> 's \<Rightarrow> (request \<times> pyval outcome) list \<Rightarrow> bool dict \<Rightarrow> bool dict \<Rightarrow> bool" where
  "full_run W cmd s lg ps fs =
     (\<exists>proxy u o1 o2 o3 o4 o5 o6 o7.
        lg = [(Connect cmd, Returns proxy), (Add 1 2, o1), (VoidMethod, o2), (Introspect, o3),
              (RaiseError, o4), (EchoList (PyList [PyNum 1, PyNum 2, PyNum 3]), o5),
              (EchoOptional PyNone, o6), (CountStream 3, o7), (Close, Returns u)]
      \<and> fst (rpc W s (Connect cmd)) = Returns proxy
      \<and> (\<exists>s. o1 = fst (rpc W s (Add 1 2)))
      \<and> (\<exists>s. o2 = fst (rpc W s VoidMethod))
      \<and> (\<exists>s. o3 = fst (rpc W s Introspect))
      \<and> (\<exists>s. o4 = fst (rpc W s RaiseError))
      \<and> (\<exists>s. o5 = fst (rpc W s (EchoList (PyList [PyNum 1, PyNum 2, PyNum 3]))))
      \<and> (\<exists>s. o6 = fst (rpc W s (EchoOptional PyNone)))
      \<and> (\<exists>s. o7 = fst (rpc W s (CountStream 3)))
      \<and> intercepted o1 \<and> intercepted o2 \<and> intercepted o3 \<and> intercepted o4
      \<and> intercepted o5 \<and> intercepted o6 \<and> intercepted o7
      \<and> ps = [(''unary'', v_unary o1), (''unary_void'', v_unary_void o2),
              (''producer'', v_producer o7), (''exchange'', True)]
      \<and> fs = [(''introspection'', v_introspection o3),
              (''error_propagation'', v_error_propagation o4),
              (''complex_types'', v_complex_types o5),
              (''optional_types'', v_optional_types o6)])"

text \<open>
  The keys of a capability record, and the hosts on which \<open>git\<close> can be started:
  \<open>subprocess.run\<close> of a \<open>git\<close> command returns a completed process there, whatever its
  return code.
\<close>

definition record_fields :: "string list" where
  "record_fields = [''version'', ''repo'', ''docs'', ''package_url'', ''transports'',
     ''patterns'', ''features'']"

definition git_starts :: "'s world \<Rightarrow> bool" where
  "git_starts W =
     (\<forall>s cmd cwd t. take 1 cmd = [''git''] \<longrightarrow>
        (\<exists>result. fst (subprocess_run W s cmd cwd t) = Inr result))"

text \<open>
  Two runs of the script side by side: the relation between their states (worlds related
  by \<open>Q\<close>, logs with the same operations and, but for the operation \<open>c\<close>, the same
  outcomes), and what makes two worlds keep it.
\<close>

definition log_rel ::
  "request option \<Rightarrow> request \<times> pyval outcome \<Rightarrow> request \<times> pyval outcome \<Rightarrow> bool" where
  "log_rel c a b = (fst a = fst b \<and> (Some (fst a) \<noteq> c \<longrightarrow> snd a = snd b))"

definition state_rel ::
  "('s \<Rightarrow> 's \<Rightarrow> bool) \<Rightarrow> request option \<Rightarrow> 's script_state \<Rightarrow> 's script_state \<Rightarrow> bool" where
  "state_rel Q c st1 st2 =
     (Q (ss_world st1) (ss_world st2) \<and> list_all2 (log_rel c) (ss_log st1) (ss_log st2))"

definition simulates ::
  "'s world \<Rightarrow> 's world \<Rightarrow> ('s \<Rightarrow> 's \<Rightarrow> bool) \<Rightarrow> request option \<Rightarrow> bool" where
  "simulates W1 W2 Q c =
     (\<forall>s1 s2 rq. Q s1 s2 \<longrightarrow>
        Q (snd (rpc W1 s1 rq)) (snd (rpc W2 s2 rq))
        \<and> (Some rq \<noteq> c \<longrightarrow> fst (rpc W1 s1 rq) = fst (rpc W2 s2 rq))
        \<and> (Some rq = c \<longrightarrow> intercepted (fst (rpc W1 s1 rq)) \<and> intercepted (fst (rpc W2 s2 rq))))"

definition body_safe :: "(pyval \<Rightarrow> exc + bool) \<Rightarrow> bool" where
  "body_safe body = (\<forall>r e. body r = Inl e \<longrightarrow> exc_is_Exception e)"

definition printed_ok :: "script_exit \<Rightarrow> bool" where
  "printed_ok ex = (case ex of Printed doc \<Rightarrow> doc_error doc = None | Died e \<Rightarrow> False | Hung \<Rightarrow> False)"

section \<open>Sample worlds\<close>

text \<open>
  A worker that conforms; the state of the world counts the operations performed, so
  every operation changes it.
\<close>

fun conforming_reply :: "request \<Rightarrow> pyval outcome" where
  "conforming_reply (Connect cmd) = Returns PyNone"
| "conforming_reply (Add a b) = Returns (PyNum (a + b))"
| "conforming_reply VoidMethod = Returns PyNone"
| "conforming_reply Introspect = Returns (PyList [PyStr ''add'', PyStr ''void_method''])"
| "conforming_reply RaiseError = Raises (Exc ''RpcError'' True 1)"
| "conforming_reply (EchoList v) = Returns v"
| "conforming_reply (EchoOptional v) = Returns v"
| "conforming_reply (CountStream n) = Returns (PyList (replicate (nat n) PyNone))"
| "conforming_reply Close = Returns PyNone"

definition conforming_world :: "nat world" where
  "conforming_world =
     \<lparr>path_exists = (\<lambda>s p. True),
      subprocess_run = (\<lambda>s cmd cwd t. (Inr \<lparr>returncode = 0, stdout = ''1.2.3''\<rparr>, Suc s)),
      python_spawns = (\<lambda>s d. True),
      rpc = (\<lambda>s rq. (conforming_reply rq, Suc s)),
      utc_now = (\<lambda>s. ''2024-01-01T00:00:00+00:00'')\<rparr>"

text \<open>The same worker, except that its stream never ends.\<close>

definition stalled_stream_world :: "nat world" where
  "stalled_stream_world = with_outcome conforming_world (CountStream 3) Hangs"

text \<open>A worker that accepts the connection and then fails every call with a transport error.\<close>

fun broken_reply :: "request \<Rightarrow> pyval outcome" where
  "broken_reply (Connect cmd) = Returns PyNone"
| "broken_reply Close = Returns PyNone"
| "broken_reply rq = Raises (Exc ''BrokenPipeError'' True 1)"

definition broken_world :: "nat world" where
  "broken_world = conforming_world\<lparr>rpc := \<lambda>s rq. (broken_reply rq, Suc s)\<rparr>"

text \<open>A host without \<open>git\<close>: starting it raises \<open>FileNotFoundError\<close>.\<close>

definition no_git_world :: "nat world" where
  "no_git_world =
     conforming_world\<lparr>subprocess_run := \<lambda>s cmd cwd t.
        if take 1 cmd = [''git''] then (Inl FileNotFoundError, s)
        else subprocess_run conforming_world s cmd cwd t\<rparr>"

text \<open>A host without \<open>uv\<close>, the executable of the Python implementation's commands.\<close>

definition no_uv_world :: "nat world" where
  "no_uv_world =
     conforming_world\<lparr>subprocess_run := \<lambda>s cmd cwd t.
        if take 1 cmd = [''uv''] then (Inl FileNotFoundError, s)
        else subprocess_run conforming_world s cmd cwd t\<rparr>"

text \<open>A worker whose command cannot be launched: \<open>connect\<close> raises.\<close>

definition unreachable_world :: "nat world" where
  "unreachable_world =
     with_outcome conforming_world (Connect [''worker''])
       (Raises (Exc ''FileNotFoundError'' True 1))"

text \<open>A worker whose method meant to fail returns normally instead.\<close>

definition lenient_world :: "nat world" where
  "lenient_world = with_outcome conforming_world RaiseError (Returns PyNone)"

text \<open>
  A host without network and without checkouts: every command completes with a failure
  code and no path exists.
\<close>

definition offline_world :: "nat world" where
  "offline_world =
     conforming_world\<lparr>path_exists := \<lambda>s p. False,
       subprocess_run := \<lambda>s cmd cwd t. (Inr \<lparr>returncode = 128, stdout = ''''\<rparr>, Suc s)\<rparr>"

section \<open>Properties of the probe script\<close>

lemma invoke_eq:
  "invoke W rq st =
     (fst (rpc W (ss_world st) rq),
      st\<lparr>ss_world := snd (rpc W (ss_world st) rq),
         ss_log := ss_log st @ [(rq, fst (rpc W (ss_world st) rq))]\<rparr>)"
  by (simp add: invoke_def split: prod.splits)

lemma try_except_Done:
  assumes "try_except (out, st) body handler store = Done st'"
  shows "st' = store (verdict body handler out) st"
    and "intercepted out"
  using assms
  by (auto simp: try_except_def verdict_def intercepted_def
           split: outcome.splits sum.splits if_splits)

lemma in_sequence_Cons_Done:
  "in_sequence (p # ps) st = Done st' \<longleftrightarrow> (\<exists>st1. p st = Done st1 \<and> in_sequence ps st1 = Done st')"
  by (simp split: attempt.splits)

text \<open>One probe that falls through: what it leaves behind.\<close>

lemma pattern_probe_Done:
  assumes "try_except (invoke W rq st) body handler (set_pattern k) = Done st'"
  shows "\<exists>out. ss_log st' = ss_log st @ [(rq, out)] \<and> intercepted out
           \<and> out = fst (rpc W (ss_world st) rq)
           \<and> ss_world st' = snd (rpc W (ss_world st) rq)
           \<and> ss_patterns st' = AList.update k (verdict body handler out) (ss_patterns st)
           \<and> ss_features st' = ss_features st"
proof -
  let ?out = "fst (rpc W (ss_world st) rq)"
  let ?st1 = "st\<lparr>ss_world := snd (rpc W (ss_world st) rq), ss_log := ss_log st @ [(rq, ?out)]\<rparr>"
  from assms have run: "try_except (?out, ?st1) body handler (set_pattern k) = Done st'"
    by (simp add: invoke_eq)
  have "st' = set_pattern k (verdict body handler ?out) ?st1" and "intercepted ?out"
    using try_except_Done [OF run] by simp_all
  then show ?thesis by (simp add: set_pattern_def)
qed

lemma feature_probe_Done:
  assumes "try_except (invoke W rq st) body handler (set_feature k) = Done st'"
  shows "\<exists>out. ss_log st' = ss_log st @ [(rq, out)] \<and> intercepted out
           \<and> out = fst (rpc W (ss_world st) rq)
           \<and> ss_world st' = snd (rpc W (ss_world st) rq)
           \<and> ss_features st' = AList.update k (verdict body handler out) (ss_features st)
           \<and> ss_patterns st' = ss_patterns st"
proof -
  let ?out = "fst (rpc W (ss_world st) rq)"
  let ?st1 = "st\<lparr>ss_world := snd (rpc W (ss_world st) rq), ss_log := ss_log st @ [(rq, ?out)]\<rparr>"
  from assms have run: "try_except (?out, ?st1) body handler (set_feature k) = Done st'"
    by (simp add: invoke_eq)
  have "st' = set_feature k (verdict body handler ?out) ?st1" and "intercepted ?out"
    using try_except_Done [OF run] by simp_all
  then show ?thesis by (simp add: set_feature_def)
qed

lemma with_body_Done:
  assumes "with_body W st = Done st'"
  shows "\<exists>o1 o2 o3 o4 o5 o6 o7.
     ss_log st' = ss_log st @
       [(Add 1 2, o1), (VoidMethod, o2), (Introspect, o3), (RaiseError, o4),
        (EchoList (PyList [PyNum 1, PyNum 2, PyNum 3]), o5), (EchoOptional PyNone, o6),
        (CountStream 3, o7)]
     \<and> (\<exists>s. o1 = fst (rpc W s (Add 1 2)))
     \<and> (\<exists>s. o2 = fst (rpc W s VoidMethod))
     \<and> (\<exists>s. o3 = fst (rpc W s Introspect))
     \<and> (\<exists>s. o4 = fst (rpc W s RaiseError))
     \<and> (\<exists>s. o5 = fst (rpc W s (EchoList (PyList [PyNum 1, PyNum 2, PyNum 3]))))
     \<and> (\<exists>s. o6 = fst (rpc W s (EchoOptional PyNone)))
     \<and> (\<exists>s. o7 = fst (rpc W s (CountStream 3)))
     \<and> intercepted o1 \<and> intercepted o2 \<and> intercepted o3 \<and> intercepted o4
     \<and> intercepted o5 \<and> intercepted o6 \<and> intercepted o7
     \<and> ss_patterns st' =
         AList.update ''exchange'' True
          (AList.update ''producer''
             (verdict (\<lambda>batches. map_sum id (\<lambda>count. count = 3) (py_len batches)) (\<lambda>e. False) o7)
          (AList.update ''unary_void'' (verdict (\<lambda>r. Inr True) (\<lambda>e. False) o2)
          (AList.update ''unary'' (verdict (py_abs_diff_lt 3 (1 / 1000)) (\<lambda>e. False) o1)
             (ss_patterns st))))
     \<and> ss_features st' =
         AList.update ''optional_types'' (verdict (\<lambda>r. Inr (r = PyNone)) (\<lambda>e. False) o6)
          (AList.update ''complex_types''
             (verdict (\<lambda>r. Inr (r = PyList [PyNum 1, PyNum 2, PyNum 3])) (\<lambda>e. False) o5)
          (AList.update ''error_propagation''
             (verdict (\<lambda>r. Inr False) (\<lambda>e. sublist ''RpcError'' (exc_type_name e)) o4)
          (AList.update ''introspection''
             (verdict (\<lambda>methods. map_sum id (\<lambda>n. n > 0) (py_len methods)) (\<lambda>e. False) o3)
             (ss_features st))))"
proof -
  from assms obtain st1 st2 st3 st4 st5 st6 st7 where
    p1: "probe_unary W st = Done st1" and
    p2: "probe_unary_void W st1 = Done st2" and
    p3: "probe_introspection W st2 = Done st3" and
    p4: "probe_error_propagation W st3 = Done st4" and
    p5: "probe_complex_types W st4 = Done st5" and
    p6: "probe_optional_types W st5 = Done st6" and
    p7: "probe_producer W st6 = Done st7" and
    p8: "probe_exchange W st7 = Done st'"
    unfolding with_body_def in_sequence_Cons_Done by auto
  note f1 = pattern_probe_Done [OF p1 [unfolded probe_unary_def]]
  note f2 = pattern_probe_Done [OF p2 [unfolded probe_unary_void_def]]
  note f3 = feature_probe_Done [OF p3 [unfolded probe_introspection_def]]
  note f4 = feature_probe_Done [OF p4 [unfolded probe_error_propagation_def]]
  note f5 = feature_probe_Done [OF p5 [unfolded probe_complex_types_def]]
  note f6 = feature_probe_Done [OF p6 [unfolded probe_optional_types_def]]
  note f7 = pattern_probe_Done [OF p7 [unfolded probe_producer_def]]
  from p8 have f8: "st' = set_pattern ''exchange'' True st7"
    by (simp add: probe_exchange_def)
  from f1 obtain o1 where o1: "ss_log st1 = ss_log st @ [(Add 1 2, o1)]"
    "o1 = fst (rpc W (ss_world st) (Add 1 2))"
    "ss_patterns st1 = AList.update ''unary'' (verdict (py_abs_diff_lt 3 (1 / 1000)) (\<lambda>e. False) o1) (ss_patterns st)"
    "ss_features st1 = ss_features st"
    "intercepted o1" by blast
  from f2 obtain o2 where o2: "ss_log st2 = ss_log st1 @ [(VoidMethod, o2)]"
    "o2 = fst (rpc W (ss_world st1) VoidMethod)"
    "ss_patterns st2 = AList.update ''unary_void'' (verdict (\<lambda>r. Inr True) (\<lambda>e. False) o2) (ss_patterns st1)"
    "ss_features st2 = ss_features st1"
    "intercepted o2" by blast
  from f3 obtain o3 where o3: "ss_log st3 = ss_log st2 @ [(Introspect, o3)]"
    "o3 = fst (rpc W (ss_world st2) Introspect)"
    "ss_features st3 = AList.update ''introspection'' (verdict (\<lambda>methods. map_sum id (\<lambda>n. n > 0) (py_len methods)) (\<lambda>e. False) o3) (ss_features st2)"
    "ss_patterns st3 = ss_patterns st2"
    "intercepted o3" by blast
  from f4 obtain o4 where o4: "ss_log st4 = ss_log st3 @ [(RaiseError, o4)]"
    "o4 = fst (rpc W (ss_world st3) RaiseError)"
    "ss_features st4 = AList.update ''error_propagation'' (verdict (\<lambda>r. Inr False) (\<lambda>e. sublist ''RpcError'' (exc_type_name e)) o4) (ss_features st3)"
    "ss_patterns st4 = ss_patterns st3"
    "intercepted o4" by blast
  from f5 obtain o5 where o5: "ss_log st5 = ss_log st4 @ [(EchoList (PyList [PyNum 1, PyNum 2, PyNum 3]), o5)]"
    "o5 = fst (rpc W (ss_world st4) (EchoList (PyList [PyNum 1, PyNum 2, PyNum 3])))"
    "ss_features st5 = AList.update ''complex_types'' (verdict (\<lambda>r. Inr (r = PyList [PyNum 1, PyNum 2, PyNum 3])) (\<lambda>e. False) o5) (ss_features st4)"
    "ss_patterns st5 = ss_patterns st4"
    "intercepted o5" by blast
  from f6 obtain o6 where o6: "ss_log st6 = ss_log st5 @ [(EchoOptional PyNone, o6)]"
    "o6 = fst (rpc W (ss_world st5) (EchoOptional PyNone))"
    "ss_features st6 = AList.update ''optional_types'' (verdict (\<lambda>r. Inr (r = PyNone)) (\<lambda>e. False) o6) (ss_features st5)"
    "ss_patterns st6 = ss_patterns st5"
    "intercepted o6" by blast
  from f7 obtain o7 where o7: "ss_log st7 = ss_log st6 @ [(CountStream 3, o7)]"
    "o7 = fst (rpc W (ss_world st6) (CountStream 3))"
    "ss_patterns st7 = AList.update ''producer'' (verdict (\<lambda>batches. map_sum id (\<lambda>count. count = 3) (py_len batches)) (\<lambda>e. False) o7) (ss_patterns st6)"
    "ss_features st7 = ss_features st6"
    "intercepted o7" by blast
  have log: "ss_log st' = ss_log st @
       [(Add 1 2, o1), (VoidMethod, o2), (Introspect, o3), (RaiseError, o4),
        (EchoList (PyList [PyNum 1, PyNum 2, PyNum 3]), o5), (EchoOptional PyNone, o6),
        (CountStream 3, o7)]"
    by (simp add: f8 set_pattern_def o1(1) o2(1) o3(1) o4(1) o5(1) o6(1) o7(1))
  have pats: "ss_patterns st' =
         AList.update ''exchange'' True
          (AList.update ''producer''
             (verdict (\<lambda>batches. map_sum id (\<lambda>count. count = 3) (py_len batches)) (\<lambda>e. False) o7)
          (AList.update ''unary_void'' (verdict (\<lambda>r. Inr True) (\<lambda>e. False) o2)
          (AList.update ''unary'' (verdict (py_abs_diff_lt 3 (1 / 1000)) (\<lambda>e. False) o1)
             (ss_patterns st))))"
    by (simp add: f8 set_pattern_def o1(3) o2(3) o3(4) o4(4) o5(4) o6(4) o7(3))
  have feats: "ss_features st' =
         AList.update ''optional_types'' (verdict (\<lambda>r. Inr (r = PyNone)) (\<lambda>e. False) o6)
          (AList.update ''complex_types''
             (verdict (\<lambda>r. Inr (r = PyList [PyNum 1, PyNum 2, PyNum 3])) (\<lambda>e. False) o5)
          (AList.update ''error_propagation''
             (verdict (\<lambda>r. Inr False) (\<lambda>e. sublist ''RpcError'' (exc_type_name e)) o4)
          (AList.update ''introspection''
             (verdict (\<lambda>methods. map_sum id (\<lambda>n. n > 0) (py_len methods)) (\<lambda>e. False) o3)
             (ss_features st))))"
    by (simp add: f8 set_pattern_def o1(4) o2(4) o3(3) o4(3) o5(3) o6(3) o7(4))
  from log pats feats o1(2,5) o2(2,5) o3(2,5) o4(2,5) o5(2,5) o6(2,5) o7(2,5)
  show ?thesis by blast
qed


lemma leave_with_None:
  assumes "leave_with W None st = (ex, st')"
  shows "(\<exists>u. ex = Printed \<lparr>doc_error = None, doc_patterns = ss_patterns st, doc_features = ss_features st\<rparr>
            \<and> ss_log st' = ss_log st @ [(Close, Returns u)])
       \<or> (\<exists>e. ex = Printed \<lparr>doc_error = Some e, doc_patterns = [], doc_features = []\<rparr>)
       \<or> (\<exists>e. ex = Died e) \<or> ex = Hung"
  using assms
  by (auto simp: leave_with_def invoke_eq outer_except_def split: outcome.splits if_splits)

lemma leave_with_Some:
  assumes "leave_with W (Some e0) st = (ex, st')"
  shows "(\<exists>e. ex = Printed \<lparr>doc_error = Some e, doc_patterns = [], doc_features = []\<rparr>)
       \<or> (\<exists>e. ex = Died e) \<or> ex = Hung"
  using assms
  by (auto simp: leave_with_def invoke_eq outer_except_def split: outcome.splits if_splits)

lemma probe_script_cases:
  assumes "probe_script W cmd s = (ex, st)"
  shows "(\<exists>ps fs. ex = Printed \<lparr>doc_error = None, doc_patterns = ps, doc_features = fs\<rparr>
            \<and> full_run W cmd s (ss_log st) ps fs)
       \<or> (\<exists>e. ex = Printed \<lparr>doc_error = Some e, doc_patterns = [], doc_features = []\<rparr>)
       \<or> (\<exists>e. ex = Died e) \<or> ex = Hung"
proof (cases "fst (rpc W s (Connect cmd))")
  case (Returns proxy)
  let ?st0 = "\<lparr>ss_world = snd (rpc W s (Connect cmd)),
               ss_log = [(Connect cmd, Returns proxy)], ss_patterns = [], ss_features = []\<rparr>"
  show ?thesis
  proof (cases "with_body W ?st0")
    case (Done st1)
    from assms Returns Done have lw: "leave_with W None st1 = (ex, st)"
      by (simp add: probe_script_def invoke_eq)
    from with_body_Done [OF Done] obtain o1 o2 o3 o4 o5 o6 o7 where
      lg: "ss_log st1 = [(Connect cmd, Returns proxy), (Add 1 2, o1), (VoidMethod, o2),
              (Introspect, o3), (RaiseError, o4),
              (EchoList (PyList [PyNum 1, PyNum 2, PyNum 3]), o5),
              (EchoOptional PyNone, o6), (CountStream 3, o7)]" and
      os: "\<exists>s. o1 = fst (rpc W s (Add 1 2))" "\<exists>s. o2 = fst (rpc W s VoidMethod)"
        "\<exists>s. o3 = fst (rpc W s Introspect)" "\<exists>s. o4 = fst (rpc W s RaiseError)"
        "\<exists>s. o5 = fst (rpc W s (EchoList (PyList [PyNum 1, PyNum 2, PyNum 3])))"
        "\<exists>s. o6 = fst (rpc W s (EchoOptional PyNone))"
        "\<exists>s. o7 = fst (rpc W s (CountStream 3))" and
      ic: "intercepted o1" "intercepted o2" "intercepted o3" "intercepted o4"
        "intercepted o5" "intercepted o6" "intercepted o7" and
      ps: "ss_patterns st1 = [(''unary'', v_unary o1), (''unary_void'', v_unary_void o2),
              (''producer'', v_producer o7), (''exchange'', True)]" and
      fs: "ss_features st1 = [(''introspection'', v_introspection o3),
              (''error_propagation'', v_error_propagation o4),
              (''complex_types'', v_complex_types o5),
              (''optional_types'', v_optional_types o6)]"
      by (simp del: ex_simps) blast
    from leave_with_None [OF lw] show ?thesis
    proof (elim disjE exE conjE)
      fix u
      assume ex: "ex = Printed \<lparr>doc_error = None, doc_patterns = ss_patterns st1,
                                 doc_features = ss_features st1\<rparr>"
        and "ss_log st = ss_log st1 @ [(Close, Returns u)]"
      with lg have "ss_log st = [(Connect cmd, Returns proxy), (Add 1 2, o1), (VoidMethod, o2),
              (Introspect, o3), (RaiseError, o4),
              (EchoList (PyList [PyNum 1, PyNum 2, PyNum 3]), o5),
              (EchoOptional PyNone, o6), (CountStream 3, o7), (Close, Returns u)]"
        by simp
      with os ic ps fs Returns
      have "full_run W cmd s (ss_log st) (ss_patterns st1) (ss_features st1)"
        unfolding full_run_def by blast
      with ex show ?thesis by blast
    qed blast+
  next
    case (Escaped e st1)
    from assms Returns Escaped have "leave_with W (Some e) st1 = (ex, st)"
      by (simp add: probe_script_def invoke_eq)
    from leave_with_Some [OF this] show ?thesis by blast
  next
    case (Stuck st1)
    with assms Returns show ?thesis by (simp add: probe_script_def invoke_eq)
  qed
next
  case (Raises e)
  with assms show ?thesis
    by (auto simp: probe_script_def invoke_eq outer_except_def split: if_splits)
next
  case Hangs
  with assms show ?thesis by (simp add: probe_script_def invoke_eq)
qed

section \<open>Properties of probe_capabilities\<close>

lemma merged_patterns:
  "dict_update (map (\<lambda>p. (p, False)) PATTERNS)
     [(''unary'', a), (''unary_void'', b), (''producer'', c), (''exchange'', d)] =
   [(''unary'', a), (''unary_void'', b), (''producer'', c), (''producer_with_header'', False),
    (''exchange'', d), (''exchange_with_header'', False)]"
  by (simp add: dict_update_def PATTERNS_def)

lemma merged_features:
  "dict_update (map (\<lambda>f. (f, False)) FEATURES)
     [(''introspection'', a), (''error_propagation'', b), (''complex_types'', c),
      (''optional_types'', d)] =
   [(''introspection'', a), (''client_logging'', False), (''error_propagation'', b),
    (''complex_types'', c), (''optional_types'', d), (''dataclass_types'', False),
    (''annotated_types'', False), (''authentication'', False), (''external_storage'', False),
    (''opentelemetry'', False)]"
  by (simp add: dict_update_def FEATURES_def)

lemma probe_capabilities_of_script:
  assumes "worker_cmd = Some (c # cs)"
  shows "fst (probe_capabilities W s worker_cmd repo_dir) =
     (if python_spawns W s repo_dir
      then (case fst (probe_script W (c # cs) s) of
              Printed doc \<Rightarrow>
                (dict_update (map (\<lambda>p. (p, False)) PATTERNS) (doc_patterns doc),
                 dict_update (map (\<lambda>f. (f, False)) FEATURES) (doc_features doc))
            | Died e \<Rightarrow> zero_result
            | Hung \<Rightarrow> zero_result)
      else zero_result)"
  using assms
  by (simp add: probe_capabilities_def run_probe_script_def zero_result_def Let_def
           split: prod.splits script_exit.splits)

lemma probe_capabilities_no_cmd:
  assumes "worker_cmd = None \<or> worker_cmd = Some []"
  shows "probe_capabilities W s worker_cmd repo_dir = (zero_result, s)"
  using assms by (auto simp: probe_capabilities_def zero_result_def)

lemma dict_update_Nil: "dict_update d [] = d"
  by (simp add: dict_update_def)

lemma probe_capabilities_cases:
  "(\<not> results_printed W s worker_cmd repo_dir
      \<and> fst (probe_capabilities W s worker_cmd repo_dir) = zero_result)
   \<or> (results_printed W s worker_cmd repo_dir
      \<and> (\<exists>cmd ps fs. worker_cmd = Some cmd
            \<and> full_run W cmd s (probe_log W s worker_cmd repo_dir) ps fs
            \<and> fst (probe_capabilities W s worker_cmd repo_dir) =
                (dict_update (map (\<lambda>p. (p, False)) PATTERNS) ps,
                 dict_update (map (\<lambda>f. (f, False)) FEATURES) fs)))"
proof (cases worker_cmd)
  case None
  then show ?thesis
    by (simp add: probe_capabilities_no_cmd results_printed_def)
next
  case (Some cmd)
  show ?thesis
  proof (cases cmd)
    case Nil
    with Some show ?thesis
      by (simp add: probe_capabilities_no_cmd results_printed_def)
  next
    case (Cons c cs)
    with Some have wc: "worker_cmd = Some (c # cs)" by simp
    note pc = probe_capabilities_of_script [OF wc, of W s repo_dir]
    show ?thesis
    proof (cases "python_spawns W s repo_dir")
      case False
      with pc wc show ?thesis by (simp add: results_printed_def)
    next
      case True
      obtain ex st where run: "probe_script W (c # cs) s = (ex, st)"
        by (cases "probe_script W (c # cs) s")
      from probe_script_cases [OF run] show ?thesis
      proof (elim disjE exE conjE)
        fix ps fs
        assume "ex = Printed \<lparr>doc_error = None, doc_patterns = ps, doc_features = fs\<rparr>"
          and "full_run W (c # cs) s (ss_log st) ps fs"
        with pc wc True run show ?thesis
          by (auto simp: results_printed_def probe_log_def)
      next
        fix e
        assume "ex = Printed \<lparr>doc_error = Some e, doc_patterns = [], doc_features = []\<rparr>"
        with pc wc True run show ?thesis
          by (simp add: results_printed_def dict_update_Nil zero_result_def)
      next
        fix e assume "ex = Died e"
        with pc wc True run show ?thesis by (simp add: results_printed_def)
      next
        assume "ex = Hung"
        with pc wc True run show ?thesis by (simp add: results_printed_def)
      qed
    qed
  qed
qed

lemma probe_capabilities_printed:
  assumes "results_printed W s worker_cmd repo_dir"
  obtains cmd proxy u o1 o2 o3 o4 o5 o6 o7 where
    "worker_cmd = Some cmd"
    "probe_log W s worker_cmd repo_dir =
       [(Connect cmd, Returns proxy), (Add 1 2, o1), (VoidMethod, o2), (Introspect, o3),
        (RaiseError, o4), (EchoList (PyList [PyNum 1, PyNum 2, PyNum 3]), o5),
        (EchoOptional PyNone, o6), (CountStream 3, o7), (Close, Returns u)]"
    "fst (rpc W s (Connect cmd)) = Returns proxy"
    "\<exists>s. o1 = fst (rpc W s (Add 1 2))"
    "\<exists>s. o2 = fst (rpc W s VoidMethod)"
    "\<exists>s. o3 = fst (rpc W s Introspect)"
    "\<exists>s. o4 = fst (rpc W s RaiseError)"
    "\<exists>s. o5 = fst (rpc W s (EchoList (PyList [PyNum 1, PyNum 2, PyNum 3])))"
    "\<exists>s. o6 = fst (rpc W s (EchoOptional PyNone))"
    "\<exists>s. o7 = fst (rpc W s (CountStream 3))"
    "fst (fst (probe_capabilities W s worker_cmd repo_dir)) =
       [(''unary'', v_unary o1), (''unary_void'', v_unary_void o2),
        (''producer'', v_producer o7), (''producer_with_header'', False),
        (''exchange'', True), (''exchange_with_header'', False)]"
    "snd (fst (probe_capabilities W s worker_cmd repo_dir)) =
       [(''introspection'', v_introspection o3), (''client_logging'', False),
        (''error_propagation'', v_error_propagation o4),
        (''complex_types'', v_complex_types o5), (''optional_types'', v_optional_types o6),
        (''dataclass_types'', False), (''annotated_types'', False),
        (''authentication'', False), (''external_storage'', False),
        (''opentelemetry'', False)]"
    "intercepted o1" "intercepted o2" "intercepted o3" "intercepted o4"
    "intercepted o5" "intercepted o6" "intercepted o7"
proof -
  from probe_capabilities_cases [of W s worker_cmd repo_dir] assms
  obtain cmd ps fs where wc: "worker_cmd = Some cmd"
    and fr: "full_run W cmd s (probe_log W s worker_cmd repo_dir) ps fs"
    and res: "fst (probe_capabilities W s worker_cmd repo_dir) =
                (dict_update (map (\<lambda>p. (p, False)) PATTERNS) ps,
                 dict_update (map (\<lambda>f. (f, False)) FEATURES) fs)"
    by blast
  from fr obtain proxy u o1 o2 o3 o4 o5 o6 o7 where
    lg: "probe_log W s worker_cmd repo_dir =
       [(Connect cmd, Returns proxy), (Add 1 2, o1), (VoidMethod, o2), (Introspect, o3),
        (RaiseError, o4), (EchoList (PyList [PyNum 1, PyNum 2, PyNum 3]), o5),
        (EchoOptional PyNone, o6), (CountStream 3, o7), (Close, Returns u)]"
    and cn: "fst (rpc W s (Connect cmd)) = Returns proxy"
    and os: "\<exists>s. o1 = fst (rpc W s (Add 1 2))" "\<exists>s. o2 = fst (rpc W s VoidMethod)"
        "\<exists>s. o3 = fst (rpc W s Introspect)" "\<exists>s. o4 = fst (rpc W s RaiseError)"
        "\<exists>s. o5 = fst (rpc W s (EchoList (PyList [PyNum 1, PyNum 2, PyNum 3])))"
        "\<exists>s. o6 = fst (rpc W s (EchoOptional PyNone))"
        "\<exists>s. o7 = fst (rpc W s (CountStream 3))"
    and ic: "intercepted o1" "intercepted o2" "intercepted o3" "intercepted o4"
        "intercepted o5" "intercepted o6" "intercepted o7"
    and ps: "ps = [(''unary'', v_unary o1), (''unary_void'', v_unary_void o2),
              (''producer'', v_producer o7), (''exchange'', True)]"
    and fs: "fs = [(''introspection'', v_introspection o3),
              (''error_propagation'', v_error_propagation o4),
              (''complex_types'', v_complex_types o5),
              (''optional_types'', v_optional_types o6)]"
    unfolding full_run_def by blast
  have r1: "fst (fst (probe_capabilities W s worker_cmd repo_dir)) =
       [(''unary'', v_unary o1), (''unary_void'', v_unary_void o2),
        (''producer'', v_producer o7), (''producer_with_header'', False),
        (''exchange'', True), (''exchange_with_header'', False)]"
    unfolding res ps fst_conv by (rule merged_patterns)
  have r2: "snd (fst (probe_capabilities W s worker_cmd repo_dir)) =
       [(''introspection'', v_introspection o3), (''client_logging'', False),
        (''error_propagation'', v_error_propagation o4),
        (''complex_types'', v_complex_types o5), (''optional_types'', v_optional_types o6),
        (''dataclass_types'', False), (''annotated_types'', False),
        (''authentication'', False), (''external_storage'', False),
        (''opentelemetry'', False)]"
    unfolding res fs snd_conv by (rule merged_features)
  from that [OF wc lg cn os r1 r2 ic] show thesis .
qed

lemma probe_capabilities_not_printed:
  assumes "\<not> results_printed W s worker_cmd repo_dir"
  shows "fst (probe_capabilities W s worker_cmd repo_dir) = zero_result"
  using probe_capabilities_cases [of W s worker_cmd repo_dir] assms by blast

text \<open>The keys of a result, on the path that printed and on every other.\<close>

lemma probe_result_keys:
  "map fst (fst (fst (probe_capabilities W s worker_cmd repo_dir))) = PATTERNS
   \<and> map fst (snd (fst (probe_capabilities W s worker_cmd repo_dir))) = FEATURES"
proof (cases "results_printed W s worker_cmd repo_dir")
  case True
  then obtain o1 o2 o3 o4 o5 o6 o7 where
    "fst (fst (probe_capabilities W s worker_cmd repo_dir)) =
       [(''unary'', v_unary o1), (''unary_void'', v_unary_void o2),
        (''producer'', v_producer o7), (''producer_with_header'', False),
        (''exchange'', True), (''exchange_with_header'', False)]"
    "snd (fst (probe_capabilities W s worker_cmd repo_dir)) =
       [(''introspection'', v_introspection o3), (''client_logging'', False),
        (''error_propagation'', v_error_propagation o4),
        (''complex_types'', v_complex_types o5), (''optional_types'', v_optional_types o6),
        (''dataclass_types'', False), (''annotated_types'', False),
        (''authentication'', False), (''external_storage'', False),
        (''opentelemetry'', False)]"
    by (rule probe_capabilities_printed)
  then show ?thesis by (simp add: PATTERNS_def FEATURES_def)
next
  case False
  from probe_capabilities_not_printed [OF this] show ?thesis
    by (simp add: zero_result_def comp_def)
qed

text \<open>
  C1. Whatever the world does, the two dictionaries \<open>probe_capabilities\<close> returns have
  exactly the keys of the catalog, in its order: those of \<open>PATTERNS\<close> and those of
  \<open>FEATURES\<close>, none missing and none added.
\<close>

theorem probe_capabilities_keys:
  "map fst (fst (fst (probe_capabilities W s worker_cmd repo_dir))) = PATTERNS
   \<and> map fst (snd (fst (probe_capabilities W s worker_cmd repo_dir))) = FEATURES"
  by (rule probe_result_keys)

section \<open>Evaluating the sample worlds\<close>

lemmas script_defs =
  probe_capabilities_def run_probe_script_def probe_script_def invoke_def with_body_def
  probe_unary_def probe_unary_void_def probe_introspection_def probe_error_propagation_def
  probe_complex_types_def probe_optional_types_def probe_producer_def probe_exchange_def
  try_except_def set_pattern_def set_feature_def leave_with_def outer_except_def
  dict_update_def PATTERNS_def FEATURES_def TypeError_def probe_log_def
  session_established_def results_printed_def zero_result_def

lemmas world_defs =
  conforming_world_def stalled_stream_world_def broken_world_def unreachable_world_def
  lenient_world_def
  with_outcome_def no_git_world_def no_uv_world_def

section \<open>The claims about probing\<close>

lemma results_printed_session:
  assumes "results_printed W s worker_cmd repo_dir"
  shows "session_established W s worker_cmd repo_dir"
proof -
  from assms obtain cmd proxy where wc: "worker_cmd = Some cmd"
    and cn: "fst (rpc W s (Connect cmd)) = Returns proxy"
    by (rule probe_capabilities_printed)
  from assms wc have "cmd \<noteq> []" "python_spawns W s repo_dir"
    by (auto simp: results_printed_def split: list.splits)
  with wc cn show ?thesis
    by (auto simp: session_established_def split: list.splits)
qed

lemma probe_log_no_session:
  assumes "\<not> session_established W s (Some (c # cs)) repo_dir"
    and "python_spawns W s repo_dir"
  shows "probe_log W s (Some (c # cs)) repo_dir =
           [(Connect (c # cs), fst (rpc W s (Connect (c # cs))))]"
  using assms
  by (auto simp: session_established_def probe_log_def probe_script_def invoke_eq
        outer_except_def split: outcome.splits)

text \<open>
  C2. When no session is established (there is no worker command, the script does not
  start, or \<open>connect\<close> raises or hangs, as it does when the worker cannot be launched), the
  result is the all-\<open>False\<close> one, and no operation beyond the attempt to connect was
  performed on the worker.
\<close>

theorem no_session_zero_result:
  assumes "\<not> session_established W s worker_cmd repo_dir"
  shows "fst (probe_capabilities W s worker_cmd repo_dir) = zero_result
       \<and> (probe_log W s worker_cmd repo_dir = []
          \<or> (\<exists>cmd. worker_cmd = Some cmd
                \<and> probe_log W s worker_cmd repo_dir =
                    [(Connect cmd, fst (rpc W s (Connect cmd)))]))"
proof
  from assms results_printed_session [of W s worker_cmd repo_dir]
  have "\<not> results_printed W s worker_cmd repo_dir"
    by blast
  then show "fst (probe_capabilities W s worker_cmd repo_dir) = zero_result"
    by (rule probe_capabilities_not_printed)
next
  show "probe_log W s worker_cmd repo_dir = []
          \<or> (\<exists>cmd. worker_cmd = Some cmd
                \<and> probe_log W s worker_cmd repo_dir =
                    [(Connect cmd, fst (rpc W s (Connect cmd)))])"
  proof (cases worker_cmd)
    case None
    then show ?thesis by (simp add: probe_log_def)
  next
    case (Some cmd)
    show ?thesis
    proof (cases cmd)
      case Nil
      with Some show ?thesis by (simp add: probe_log_def)
    next
      case (Cons c cs)
      show ?thesis
      proof (cases "python_spawns W s repo_dir")
        case True
        with assms Some Cons probe_log_no_session [of W s c cs repo_dir]
        show ?thesis by simp
      next
        case False
        with Some Cons show ?thesis by (simp add: probe_log_def)
      qed
    qed
  qed
qed

theorem no_session_zero_result_witness:
  "\<not> session_established unreachable_world 0 (Some [''worker'']) ''repo''
   \<and> fst (probe_capabilities unreachable_world 0 (Some [''worker'']) ''repo'') = zero_result
   \<and> probe_log unreachable_world 0 (Some [''worker'']) ''repo'' =
       [(Connect [''worker''], Raises (Exc ''FileNotFoundError'' True 1))]"
proof -
  have h: "\<not> session_established unreachable_world 0 (Some [''worker'']) ''repo''"
    by (simp add: session_established_def world_defs)
  have l: "probe_log unreachable_world 0 (Some [''worker'']) ''repo'' =
       [(Connect [''worker''], Raises (Exc ''FileNotFoundError'' True 1))]"
    by (simp add: script_defs world_defs)
  from no_session_zero_result [OF h] h l show ?thesis by simp
qed

text \<open>
  C4, as stated, fails: against the conforming worker a session is established and the
  script runs to its end, yet it performs seven calls and writes eight keys, four patterns
  and four features; the other eight keys of the catalog have no probe.
\<close>

theorem catalog_not_all_attempted:
  "session_established conforming_world 0 (Some [''worker'']) ''repo''
   \<and> map fst (probe_log conforming_world 0 (Some [''worker'']) ''repo'') =
       [Connect [''worker''], Add 1 2, VoidMethod, Introspect, RaiseError,
        EchoList (PyList [PyNum 1, PyNum 2, PyNum 3]), EchoOptional PyNone, CountStream 3,
        Close]
   \<and> fst (probe_script conforming_world [''worker''] 0) =
       Printed \<lparr>doc_error = None,
         doc_patterns = [(''unary'', True), (''unary_void'', True), (''producer'', True),
                         (''exchange'', True)],
         doc_features = [(''introspection'', True), (''error_propagation'', True),
                         (''complex_types'', True), (''optional_types'', True)]\<rparr>
   \<and> map fst (doc_patterns (case fst (probe_script conforming_world [''worker''] 0) of
                               Printed doc \<Rightarrow> doc)) \<noteq> PATTERNS"
  by (simp add: script_defs world_defs eval_nat_numeral)

text \<open>
  C4, amended. When the script prints its results, it has performed exactly its seven
  calls, once each and in its order, between connecting and closing, and it has written
  exactly the keys \<open>unary\<close>, \<open>unary_void\<close>, \<open>producer\<close>, \<open>exchange\<close> and
  \<open>introspection\<close>, \<open>error_propagation\<close>, \<open>complex_types\<close>, \<open>optional_types\<close>. When it
  does not, the result is the all-\<open>False\<close> one. The remaining two pattern keys and six
  feature keys are never attempted and are \<open>False\<close> in every result.
\<close>

theorem probes_attempted:
  "(results_printed W s worker_cmd repo_dir \<longrightarrow>
      (\<exists>cmd doc. worker_cmd = Some cmd
         \<and> map fst (probe_log W s worker_cmd repo_dir) =
             [Connect cmd, Add 1 2, VoidMethod, Introspect, RaiseError,
              EchoList (PyList [PyNum 1, PyNum 2, PyNum 3]), EchoOptional PyNone,
              CountStream 3, Close]
         \<and> fst (probe_script W cmd s) = Printed doc
         \<and> map fst (doc_patterns doc) = [''unary'', ''unary_void'', ''producer'', ''exchange'']
         \<and> map fst (doc_features doc) =
             [''introspection'', ''error_propagation'', ''complex_types'', ''optional_types'']))
   \<and> (\<not> results_printed W s worker_cmd repo_dir \<longrightarrow>
        fst (probe_capabilities W s worker_cmd repo_dir) = zero_result)
   \<and> (\<forall>k \<in> set [''producer_with_header'', ''exchange_with_header''].
        map_of (fst (fst (probe_capabilities W s worker_cmd repo_dir))) k = Some False)
   \<and> (\<forall>k \<in> set [''client_logging'', ''dataclass_types'', ''annotated_types'',
                 ''authentication'', ''external_storage'', ''opentelemetry''].
        map_of (snd (fst (probe_capabilities W s worker_cmd repo_dir))) k = Some False)"
proof (cases "results_printed W s worker_cmd repo_dir")
  case True
  from True obtain cmd where wc: "worker_cmd = Some cmd" and ne: "cmd \<noteq> []"
    and py: "python_spawns W s repo_dir"
    by (auto simp: results_printed_def split: option.splits list.splits)
  obtain ex st where run: "probe_script W cmd s = (ex, st)"
    by (cases "probe_script W cmd s")
  from True wc ne run obtain doc where ex: "ex = Printed doc" and de: "doc_error doc = None"
    by (auto simp: results_printed_def split: list.splits script_exit.splits)
  from probe_script_cases [OF run] ex de obtain ps fs where
    doc: "doc = \<lparr>doc_error = None, doc_patterns = ps, doc_features = fs\<rparr>"
    and fr: "full_run W cmd s (ss_log st) ps fs"
    by auto
  from wc ne py run have lg: "probe_log W s worker_cmd repo_dir = ss_log st"
    by (auto simp: probe_log_def split: list.splits)
  from fr have a: "map fst (ss_log st) =
             [Connect cmd, Add 1 2, VoidMethod, Introspect, RaiseError,
              EchoList (PyList [PyNum 1, PyNum 2, PyNum 3]), EchoOptional PyNone,
              CountStream 3, Close]"
    and b: "map fst ps = [''unary'', ''unary_void'', ''producer'', ''exchange'']"
    and c: "map fst fs =
             [''introspection'', ''error_propagation'', ''complex_types'', ''optional_types'']"
    unfolding full_run_def by auto
  have first: "\<exists>cmd doc. worker_cmd = Some cmd
         \<and> map fst (probe_log W s worker_cmd repo_dir) =
             [Connect cmd, Add 1 2, VoidMethod, Introspect, RaiseError,
              EchoList (PyList [PyNum 1, PyNum 2, PyNum 3]), EchoOptional PyNone,
              CountStream 3, Close]
         \<and> fst (probe_script W cmd s) = Printed doc
         \<and> map fst (doc_patterns doc) = [''unary'', ''unary_void'', ''producer'', ''exchange'']
         \<and> map fst (doc_features doc) =
             [''introspection'', ''error_propagation'', ''complex_types'', ''optional_types'']"
    using wc lg a b c run ex doc by auto
  from True obtain o1 o2 o3 o4 o5 o6 o7 where
    r1: "fst (fst (probe_capabilities W s worker_cmd repo_dir)) =
       [(''unary'', v_unary o1), (''unary_void'', v_unary_void o2),
        (''producer'', v_producer o7), (''producer_with_header'', False),
        (''exchange'', True), (''exchange_with_header'', False)]" and
    r2: "snd (fst (probe_capabilities W s worker_cmd repo_dir)) =
       [(''introspection'', v_introspection o3), (''client_logging'', False),
        (''error_propagation'', v_error_propagation o4),
        (''complex_types'', v_complex_types o5), (''optional_types'', v_optional_types o6),
        (''dataclass_types'', False), (''annotated_types'', False),
        (''authentication'', False), (''external_storage'', False),
        (''opentelemetry'', False)]"
    by (rule probe_capabilities_printed)
  have third: "\<forall>k \<in> set [''producer_with_header'', ''exchange_with_header''].
        map_of (fst (fst (probe_capabilities W s worker_cmd repo_dir))) k = Some False"
    unfolding r1 by simp
  have fourth: "\<forall>k \<in> set [''client_logging'', ''dataclass_types'', ''annotated_types'',
                 ''authentication'', ''external_storage'', ''opentelemetry''].
        map_of (snd (fst (probe_capabilities W s worker_cmd repo_dir))) k = Some False"
    unfolding r2 by simp
  from True first third fourth show ?thesis by blast
next
  case False
  note z = probe_capabilities_not_printed [OF False]
  have third: "\<forall>k \<in> set [''producer_with_header'', ''exchange_with_header''].
        map_of (fst (fst (probe_capabilities W s worker_cmd repo_dir))) k = Some False"
    unfolding z by (simp add: zero_result_def PATTERNS_def)
  have fourth: "\<forall>k \<in> set [''client_logging'', ''dataclass_types'', ''annotated_types'',
                 ''authentication'', ''external_storage'', ''opentelemetry''].
        map_of (snd (fst (probe_capabilities W s worker_cmd repo_dir))) k = Some False"
    unfolding z by (simp add: zero_result_def FEATURES_def)
  from False z third fourth show ?thesis by blast
qed

theorem probes_attempted_witness:
  "results_printed conforming_world 0 (Some [''worker'']) ''repo''
   \<and> map fst (probe_log conforming_world 0 (Some [''worker'']) ''repo'') =
       [Connect [''worker''], Add 1 2, VoidMethod, Introspect, RaiseError,
        EchoList (PyList [PyNum 1, PyNum 2, PyNum 3]), EchoOptional PyNone, CountStream 3,
        Close]
   \<and> \<not> results_printed stalled_stream_world 0 (Some [''worker'']) ''repo''
   \<and> fst (probe_capabilities stalled_stream_world 0 (Some [''worker'']) ''repo'') = zero_result
   \<and> map_of (fst (fst (probe_capabilities conforming_world 0 (Some [''worker'']) ''repo'')))
        ''producer_with_header'' = Some False
   \<and> map_of (snd (fst (probe_capabilities conforming_world 0 (Some [''worker'']) ''repo'')))
        ''opentelemetry'' = Some False"
proof -
  have h1: "results_printed conforming_world 0 (Some [''worker'']) ''repo''"
    by (simp add: script_defs world_defs)
  have h2: "\<not> results_printed stalled_stream_world 0 (Some [''worker'']) ''repo''"
    by (simp add: script_defs world_defs)
  from probes_attempted [of conforming_world 0 "Some [''worker'']" "''repo''"]
    probes_attempted [of stalled_stream_world 0 "Some [''worker'']" "''repo''"] h1 h2
  show ?thesis by auto
qed

lemma v_unary_iff:
  "v_unary out \<longleftrightarrow> (\<exists>x. out = Returns (PyNum x) \<and> \<bar>x - 3\<bar> < 1 / 1000)"
proof (cases out)
  case (Returns r)
  then show ?thesis by (cases r) (simp_all add: verdict_def)
qed (simp_all add: verdict_def)

lemma v_unary_void_iff: "v_unary_void out \<longleftrightarrow> (\<exists>r. out = Returns r)"
  by (cases out) (simp_all add: verdict_def)

lemma v_producer_iff:
  "v_producer out \<longleftrightarrow> (\<exists>batches. out = Returns batches \<and> py_len batches = Inr 3)"
proof (cases out)
  case (Returns r)
  then show ?thesis by (cases r) (simp_all add: verdict_def)
qed (simp_all add: verdict_def)

lemma v_error_propagation_iff:
  "v_error_propagation out \<longleftrightarrow>
     (\<exists>e. out = Raises e \<and> sublist ''RpcError'' (exc_type_name e))"
  by (cases out) (simp_all add: verdict_def)

text \<open>
  C5, as stated, fails for the exchange probe: against a worker that fails every call the
  result has \<open>exchange\<close> true, although no call returned anything and none belongs to that
  probe.
\<close>

theorem exchange_true_without_call:
  "map_of (fst (fst (probe_capabilities broken_world 0 (Some [''worker'']) ''repo'')))
     ''exchange'' = Some True
   \<and> probe_log broken_world 0 (Some [''worker'']) ''repo'' =
       [(Connect [''worker''], Returns PyNone),
        (Add 1 2, Raises (Exc ''BrokenPipeError'' True 1)),
        (VoidMethod, Raises (Exc ''BrokenPipeError'' True 1)),
        (Introspect, Raises (Exc ''BrokenPipeError'' True 1)),
        (RaiseError, Raises (Exc ''BrokenPipeError'' True 1)),
        (EchoList (PyList [PyNum 1, PyNum 2, PyNum 3]), Raises (Exc ''BrokenPipeError'' True 1)),
        (EchoOptional PyNone, Raises (Exc ''BrokenPipeError'' True 1)),
        (CountStream 3, Raises (Exc ''BrokenPipeError'' True 1)),
        (Close, Returns PyNone)]"
  by (simp add: script_defs world_defs sublist_Cons_right prefix_Cons)

text \<open>
  C5, amended. \<open>unary\<close> is true only after \<open>add(1.0, 2.0)\<close> returned a number within
  0.001 of 3.0; \<open>unary_void\<close> only after \<open>void_method()\<close> returned; \<open>producer\<close> only after
  \<open>count_stream(n=3)\<close> yielded exactly three batches. The exchange probe performs no call:
  \<open>exchange\<close> is true exactly when the script ran to its end and printed its results. The
  two patterns with a header have no probe and are never true.
\<close>

theorem pattern_true_only_after_check:
  "(map_of (fst (fst (probe_capabilities W s worker_cmd repo_dir))) ''unary'' = Some True \<longrightarrow>
      (\<exists>x. (Add 1 2, Returns (PyNum x)) \<in> set (probe_log W s worker_cmd repo_dir)
          \<and> \<bar>x - 3\<bar> < 1 / 1000))
   \<and> (map_of (fst (fst (probe_capabilities W s worker_cmd repo_dir))) ''unary_void'' = Some True \<longrightarrow>
      (\<exists>r. (VoidMethod, Returns r) \<in> set (probe_log W s worker_cmd repo_dir)))
   \<and> (map_of (fst (fst (probe_capabilities W s worker_cmd repo_dir))) ''producer'' = Some True \<longrightarrow>
      (\<exists>batches. (CountStream 3, Returns batches) \<in> set (probe_log W s worker_cmd repo_dir)
          \<and> py_len batches = Inr 3))
   \<and> (map_of (fst (fst (probe_capabilities W s worker_cmd repo_dir))) ''exchange'' = Some True
        \<longleftrightarrow> results_printed W s worker_cmd repo_dir)
   \<and> map_of (fst (fst (probe_capabilities W s worker_cmd repo_dir))) ''producer_with_header''
        = Some False
   \<and> map_of (fst (fst (probe_capabilities W s worker_cmd repo_dir))) ''exchange_with_header''
        = Some False"
proof (cases "results_printed W s worker_cmd repo_dir")
  case True
  from True obtain cmd proxy u o1 o2 o3 o4 o5 o6 o7 where
    lg: "probe_log W s worker_cmd repo_dir =
       [(Connect cmd, Returns proxy), (Add 1 2, o1), (VoidMethod, o2), (Introspect, o3),
        (RaiseError, o4), (EchoList (PyList [PyNum 1, PyNum 2, PyNum 3]), o5),
        (EchoOptional PyNone, o6), (CountStream 3, o7), (Close, Returns u)]" and
    r1: "fst (fst (probe_capabilities W s worker_cmd repo_dir)) =
       [(''unary'', v_unary o1), (''unary_void'', v_unary_void o2),
        (''producer'', v_producer o7), (''producer_with_header'', False),
        (''exchange'', True), (''exchange_with_header'', False)]"
    by (rule probe_capabilities_printed)
  have a: "map_of (fst (fst (probe_capabilities W s worker_cmd repo_dir))) ''unary'' = Some True \<longrightarrow>
      (\<exists>x. (Add 1 2, Returns (PyNum x)) \<in> set (probe_log W s worker_cmd repo_dir)
          \<and> \<bar>x - 3\<bar> < 1 / 1000)"
    unfolding r1 lg using v_unary_iff [of o1] by auto
  have b: "map_of (fst (fst (probe_capabilities W s worker_cmd repo_dir))) ''unary_void'' = Some True \<longrightarrow>
      (\<exists>r. (VoidMethod, Returns r) \<in> set (probe_log W s worker_cmd repo_dir))"
    unfolding r1 lg using v_unary_void_iff [of o2] by auto
  have c: "map_of (fst (fst (probe_capabilities W s worker_cmd repo_dir))) ''producer'' = Some True \<longrightarrow>
      (\<exists>batches. (CountStream 3, Returns batches) \<in> set (probe_log W s worker_cmd repo_dir)
          \<and> py_len batches = Inr 3)"
    unfolding r1 lg using v_producer_iff [of o7] by auto
  have d: "map_of (fst (fst (probe_capabilities W s worker_cmd repo_dir))) ''exchange'' = Some True"
    "map_of (fst (fst (probe_capabilities W s worker_cmd repo_dir))) ''producer_with_header''
        = Some False"
    "map_of (fst (fst (probe_capabilities W s worker_cmd repo_dir))) ''exchange_with_header''
        = Some False"
    unfolding r1 by simp_all
  from True a b c d show ?thesis by blast
next
  case False
  note z = probe_capabilities_not_printed [OF False]
  have "map_of (fst (fst (probe_capabilities W s worker_cmd repo_dir))) k =
          (if k \<in> set PATTERNS then Some False else None)" for k
    unfolding z by (simp add: zero_result_def PATTERNS_def)
  with False show ?thesis by (simp add: PATTERNS_def)
qed

theorem pattern_true_only_after_check_witness:
  "map_of (fst (fst (probe_capabilities conforming_world 0 (Some [''worker'']) ''repo'')))
      ''unary'' = Some True
   \<and> (\<exists>x. (Add 1 2, Returns (PyNum x)) \<in> set (probe_log conforming_world 0 (Some [''worker'']) ''repo'')
          \<and> \<bar>x - 3\<bar> < 1 / 1000)
   \<and> map_of (fst (fst (probe_capabilities conforming_world 0 (Some [''worker'']) ''repo'')))
      ''unary_void'' = Some True
   \<and> (\<exists>r. (VoidMethod, Returns r) \<in> set (probe_log conforming_world 0 (Some [''worker'']) ''repo''))
   \<and> map_of (fst (fst (probe_capabilities conforming_world 0 (Some [''worker'']) ''repo'')))
      ''producer'' = Some True
   \<and> (\<exists>batches. (CountStream 3, Returns batches)
                   \<in> set (probe_log conforming_world 0 (Some [''worker'']) ''repo'')
          \<and> py_len batches = Inr 3)
   \<and> map_of (fst (fst (probe_capabilities conforming_world 0 (Some [''worker'']) ''repo'')))
      ''exchange'' = Some True
   \<and> results_printed conforming_world 0 (Some [''worker'']) ''repo''"
proof -
  have res: "fst (fst (probe_capabilities conforming_world 0 (Some [''worker'']) ''repo'')) =
     [(''unary'', True), (''unary_void'', True), (''producer'', True),
       (''producer_with_header'', False), (''exchange'', True),
       (''exchange_with_header'', False)]"
    by (simp add: script_defs world_defs)
  have h: "map_of (fst (fst (probe_capabilities conforming_world 0 (Some [''worker'']) ''repo'')))
      ''unary'' = Some True"
    "map_of (fst (fst (probe_capabilities conforming_world 0 (Some [''worker'']) ''repo'')))
      ''unary_void'' = Some True"
    "map_of (fst (fst (probe_capabilities conforming_world 0 (Some [''worker'']) ''repo'')))
      ''producer'' = Some True"
    "map_of (fst (fst (probe_capabilities conforming_world 0 (Some [''worker'']) ''repo'')))
      ''exchange'' = Some True"
    unfolding res by simp_all
  from pattern_true_only_after_check [of conforming_world 0 "Some [''worker'']" "''repo''"] h
  show ?thesis by blast
qed

text \<open>
  C6. The error-propagation probe stores \<open>True\<close> exactly when \<open>raise_error()\<close> raises an
  exception (one \<open>except Exception\<close> intercepts) whose class name contains \<open>RpcError\<close>, and
  \<open>False\<close> when the method returns normally. The same holds of the value
  \<open>probe_capabilities\<close> returns, read against the log of the run: when the results were
  printed it is true exactly when the logged call raised such an exception, and a call
  logged as returning always leaves it false.
\<close>

theorem error_propagation_verdict:
  "((\<exists>st'. probe_error_propagation W st = Done st'
          \<and> map_of (ss_features st') ''error_propagation'' = Some True)
      \<longleftrightarrow> (\<exists>e. fst (rpc W (ss_world st) RaiseError) = Raises e \<and> exc_is_Exception e
               \<and> sublist ''RpcError'' (exc_type_name e)))
   \<and> (\<forall>r. fst (rpc W (ss_world st) RaiseError) = Returns r \<longrightarrow>
         (\<exists>st'. probe_error_propagation W st = Done st'
            \<and> map_of (ss_features st') ''error_propagation'' = Some False))
   \<and> (results_printed W s worker_cmd repo_dir \<longrightarrow>
         (map_of (snd (fst (probe_capabilities W s worker_cmd repo_dir))) ''error_propagation''
            = Some True
          \<longleftrightarrow> (\<exists>e. (RaiseError, Raises e) \<in> set (probe_log W s worker_cmd repo_dir)
                   \<and> sublist ''RpcError'' (exc_type_name e))))
   \<and> (\<forall>r. (RaiseError, Returns r) \<in> set (probe_log W s worker_cmd repo_dir) \<longrightarrow>
         map_of (snd (fst (probe_capabilities W s worker_cmd repo_dir))) ''error_propagation''
           = Some False)"
proof -
  have probe: "probe_error_propagation W st =
      (case fst (rpc W (ss_world st) RaiseError) of
         Returns r \<Rightarrow> Done (set_feature ''error_propagation'' False (snd (invoke W RaiseError st)))
       | Raises e \<Rightarrow>
           if exc_is_Exception e
           then Done (set_feature ''error_propagation'' (sublist ''RpcError'' (exc_type_name e))
                        (snd (invoke W RaiseError st)))
           else Escaped e (snd (invoke W RaiseError st))
       | Hangs \<Rightarrow> Stuck (snd (invoke W RaiseError st)))"
    by (simp add: probe_error_propagation_def try_except_def invoke_eq split: outcome.splits)
  have stored: "map_of (ss_features (set_feature k b st0)) k = Some b" for k b and st0 :: "'a script_state"
    by (simp add: set_feature_def update_conv')
  have one: "(\<exists>st'. probe_error_propagation W st = Done st'
          \<and> map_of (ss_features st') ''error_propagation'' = Some True)
      \<longleftrightarrow> (\<exists>e. fst (rpc W (ss_world st) RaiseError) = Raises e \<and> exc_is_Exception e
               \<and> sublist ''RpcError'' (exc_type_name e))"
    unfolding probe by (cases "fst (rpc W (ss_world st) RaiseError)") (auto simp: stored)
  have two: "\<forall>r. fst (rpc W (ss_world st) RaiseError) = Returns r \<longrightarrow>
         (\<exists>st'. probe_error_propagation W st = Done st'
            \<and> map_of (ss_features st') ''error_propagation'' = Some False)"
    unfolding probe by (auto simp: stored)
  have three: "map_of (snd (fst (probe_capabilities W s worker_cmd repo_dir))) ''error_propagation''
            = Some True
          \<longleftrightarrow> (\<exists>e. (RaiseError, Raises e) \<in> set (probe_log W s worker_cmd repo_dir)
                   \<and> sublist ''RpcError'' (exc_type_name e))"
    and four_a: "\<forall>r. (RaiseError, Returns r) \<in> set (probe_log W s worker_cmd repo_dir) \<longrightarrow>
         map_of (snd (fst (probe_capabilities W s worker_cmd repo_dir))) ''error_propagation''
           = Some False"
    if "results_printed W s worker_cmd repo_dir"
  proof -
    from that obtain cmd proxy u o1 o2 o3 o4 o5 o6 o7 where
      lg: "probe_log W s worker_cmd repo_dir =
         [(Connect cmd, Returns proxy), (Add 1 2, o1), (VoidMethod, o2), (Introspect, o3),
          (RaiseError, o4), (EchoList (PyList [PyNum 1, PyNum 2, PyNum 3]), o5),
          (EchoOptional PyNone, o6), (CountStream 3, o7), (Close, Returns u)]" and
      r2: "snd (fst (probe_capabilities W s worker_cmd repo_dir)) =
         [(''introspection'', v_introspection o3), (''client_logging'', False),
          (''error_propagation'', v_error_propagation o4),
          (''complex_types'', v_complex_types o5), (''optional_types'', v_optional_types o6),
          (''dataclass_types'', False), (''annotated_types'', False),
          (''authentication'', False), (''external_storage'', False),
          (''opentelemetry'', False)]"
      by (rule probe_capabilities_printed)
    show "map_of (snd (fst (probe_capabilities W s worker_cmd repo_dir))) ''error_propagation''
            = Some True
          \<longleftrightarrow> (\<exists>e. (RaiseError, Raises e) \<in> set (probe_log W s worker_cmd repo_dir)
                   \<and> sublist ''RpcError'' (exc_type_name e))"
      unfolding r2 lg using v_error_propagation_iff [of o4] by auto
    show "\<forall>r. (RaiseError, Returns r) \<in> set (probe_log W s worker_cmd repo_dir) \<longrightarrow>
         map_of (snd (fst (probe_capabilities W s worker_cmd repo_dir))) ''error_propagation''
           = Some False"
      unfolding r2 lg using v_error_propagation_iff [of o4] by auto
  qed
  have four_b: "map_of (snd (fst (probe_capabilities W s worker_cmd repo_dir))) ''error_propagation''
           = Some False"
    if "\<not> results_printed W s worker_cmd repo_dir"
    unfolding probe_capabilities_not_printed [OF that]
    by (simp add: zero_result_def FEATURES_def)
  from one two three four_a four_b show ?thesis by blast
qed

theorem error_propagation_verdict_witness:
  "(\<exists>st'. probe_error_propagation conforming_world
             \<lparr>ss_world = 0, ss_log = [], ss_patterns = [], ss_features = []\<rparr> = Done st'
          \<and> map_of (ss_features st') ''error_propagation'' = Some True)
   \<and> (\<exists>st'. probe_error_propagation lenient_world
             \<lparr>ss_world = 0, ss_log = [], ss_patterns = [], ss_features = []\<rparr> = Done st'
          \<and> map_of (ss_features st') ''error_propagation'' = Some False)
   \<and> results_printed conforming_world 0 (Some [''worker'']) ''repo''
   \<and> map_of (snd (fst (probe_capabilities conforming_world 0 (Some [''worker'']) ''repo'')))
        ''error_propagation'' = Some True
   \<and> (RaiseError, Returns PyNone) \<in> set (probe_log lenient_world 0 (Some [''worker'']) ''repo'')
   \<and> map_of (snd (fst (probe_capabilities lenient_world 0 (Some [''worker'']) ''repo'')))
        ''error_propagation'' = Some False"
proof -
  let ?st = "\<lparr>ss_world = 0::nat, ss_log = [], ss_patterns = [], ss_features = []\<rparr>"
  have h1: "fst (rpc conforming_world (ss_world ?st) RaiseError) = Raises (Exc ''RpcError'' True 1)"
    "exc_is_Exception (Exc ''RpcError'' True 1)"
    "sublist ''RpcError'' (exc_type_name (Exc ''RpcError'' True 1))"
    by (simp_all add: world_defs)
  have h2: "fst (rpc lenient_world (ss_world ?st) RaiseError) = Returns PyNone"
    by (simp add: world_defs)
  have h3: "results_printed conforming_world 0 (Some [''worker'']) ''repo''"
    by (simp add: script_defs world_defs)
  have h4: "(RaiseError, Raises (Exc ''RpcError'' True 1))
              \<in> set (probe_log conforming_world 0 (Some [''worker'']) ''repo'')"
    by (simp add: script_defs world_defs)
  have h5: "(RaiseError, Returns PyNone)
              \<in> set (probe_log lenient_world 0 (Some [''worker'']) ''repo'')"
    by (simp add: script_defs world_defs)
  from error_propagation_verdict
         [of conforming_world ?st 0 "Some [''worker'']" "''repo''"] h1 h3 h4
  have a: "\<exists>st'. probe_error_propagation conforming_world ?st = Done st'
          \<and> map_of (ss_features st') ''error_propagation'' = Some True"
    and b: "map_of (snd (fst (probe_capabilities conforming_world 0 (Some [''worker'']) ''repo'')))
        ''error_propagation'' = Some True"
    by blast+
  from error_propagation_verdict
         [of lenient_world ?st 0 "Some [''worker'']" "''repo''"] h2 h5
  have c: "\<exists>st'. probe_error_propagation lenient_world ?st = Done st'
          \<and> map_of (ss_features st') ''error_propagation'' = Some False"
    and d: "map_of (snd (fst (probe_capabilities lenient_world 0 (Some [''worker'']) ''repo'')))
        ''error_propagation'' = Some False"
    by blast+
  from a b c d h3 h5 show ?thesis by blast
qed

section \<open>Two runs side by side\<close>

lemma invoke_rel:
  assumes "simulates W1 W2 Q c" and "state_rel Q c st1 st2"
  shows "state_rel Q c (snd (invoke W1 rq st1)) (snd (invoke W2 rq st2))"
    and "Some rq \<noteq> c \<Longrightarrow> fst (invoke W1 rq st1) = fst (invoke W2 rq st2)"
    and "Some rq = c \<Longrightarrow> intercepted (fst (invoke W1 rq st1)) \<and> intercepted (fst (invoke W2 rq st2))"
proof -
  from assms have q: "Q (ss_world st1) (ss_world st2)"
    and l: "list_all2 (log_rel c) (ss_log st1) (ss_log st2)"
    by (simp_all add: state_rel_def)
  from assms(1) q have
    a: "Q (snd (rpc W1 (ss_world st1) rq)) (snd (rpc W2 (ss_world st2) rq))" and
    b: "Some rq \<noteq> c \<Longrightarrow> fst (rpc W1 (ss_world st1) rq) = fst (rpc W2 (ss_world st2) rq)" and
    d: "Some rq = c \<Longrightarrow> intercepted (fst (rpc W1 (ss_world st1) rq))
                        \<and> intercepted (fst (rpc W2 (ss_world st2) rq))"
    unfolding simulates_def by blast+
  from b have "log_rel c (rq, fst (rpc W1 (ss_world st1) rq)) (rq, fst (rpc W2 (ss_world st2) rq))"
    by (auto simp: log_rel_def)
  with l have "list_all2 (log_rel c) (ss_log st1 @ [(rq, fst (rpc W1 (ss_world st1) rq))])
                 (ss_log st2 @ [(rq, fst (rpc W2 (ss_world st2) rq))])"
    by (simp add: list_all2_appendI)
  with a show "state_rel Q c (snd (invoke W1 rq st1)) (snd (invoke W2 rq st2))"
    by (simp add: invoke_eq state_rel_def)
  from b show "Some rq \<noteq> c \<Longrightarrow> fst (invoke W1 rq st1) = fst (invoke W2 rq st2)"
    by (simp add: invoke_eq)
  from d show "Some rq = c \<Longrightarrow> intercepted (fst (invoke W1 rq st1)) \<and> intercepted (fst (invoke W2 rq st2))"
    by (simp add: invoke_eq)
qed

lemma try_except_intercepted:
  assumes "intercepted out" and "body_safe body"
  shows "\<exists>b. try_except (out, st) body handler store = Done (store b st)"
  using assms
  by (auto simp: try_except_def intercepted_def body_safe_def split: outcome.splits sum.splits)

lemma try_except_same:
  assumes "R st1 st2" and "\<And>b. R (store b st1) (store b st2)"
  shows "rel_attempt R (try_except (out, st1) body handler store)
           (try_except (out, st2) body handler store)"
  using assms
  by (auto simp: try_except_def split: outcome.splits sum.splits)

lemma probe_rel:
  assumes sim: "simulates W1 W2 Q c" and rel: "state_rel Q c st1 st2"
    and safe: "body_safe body"
    and w: "\<And>b st. ss_world (store b st) = ss_world st"
    and l: "\<And>b st. ss_log (store b st) = ss_log st"
  shows "rel_attempt (state_rel Q c)
           (try_except (invoke W1 rq st1) body handler store)
           (try_except (invoke W2 rq st2) body handler store)"
proof -
  obtain o1 t1 where i1: "invoke W1 rq st1 = (o1, t1)" by (cases "invoke W1 rq st1")
  obtain o2 t2 where i2: "invoke W2 rq st2 = (o2, t2)" by (cases "invoke W2 rq st2")
  from invoke_rel(1) [OF sim rel, of rq] i1 i2 have t: "state_rel Q c t1 t2" by simp
  have st: "state_rel Q c (store b1 t1) (store b2 t2)" for b1 b2
    using t w l by (simp add: state_rel_def)
  show ?thesis
  proof (cases "Some rq = c")
    case True
    from invoke_rel(3) [OF sim rel True] i1 i2 have "intercepted o1" "intercepted o2"
      by simp_all
    from try_except_intercepted [OF this(1) safe, of t1 handler store]
      try_except_intercepted [OF this(2) safe, of t2 handler store]
    obtain b1 b2 where "try_except (o1, t1) body handler store = Done (store b1 t1)"
      "try_except (o2, t2) body handler store = Done (store b2 t2)" by blast
    with st i1 i2 show ?thesis by simp
  next
    case False
    from invoke_rel(2) [OF sim rel False] i1 i2 have "o1 = o2" by simp
    moreover have "rel_attempt (state_rel Q c) (try_except (o2, t1) body handler store)
           (try_except (o2, t2) body handler store)"
      by (rule try_except_same) (rule t, rule st)
    ultimately show ?thesis using i1 i2 by simp
  qed
qed

lemma safe_bodies:
  "body_safe (py_abs_diff_lt a eps)" "body_safe (\<lambda>r. Inr (f r))"
  "body_safe (\<lambda>v. map_sum id g (py_len v))"
proof -
  show "body_safe (py_abs_diff_lt a eps)"
    unfolding body_safe_def
  proof (intro allI impI)
    fix r e assume "py_abs_diff_lt a eps r = Inl e"
    then show "exc_is_Exception e" by (cases r) (auto simp: TypeError_def)
  qed
  show "body_safe (\<lambda>r. Inr (f r))" by (simp add: body_safe_def)
  show "body_safe (\<lambda>v. map_sum id g (py_len v))"
    unfolding body_safe_def
  proof (intro allI impI)
    fix r e assume "map_sum id g (py_len r) = Inl e"
    then show "exc_is_Exception e" by (cases r) (auto simp: TypeError_def)
  qed
qed

lemma in_sequence_rel:
  assumes "list_all2 (\<lambda>p q. \<forall>a b. R a b \<longrightarrow> rel_attempt R (p a) (q b)) ps qs" and "R a b"
  shows "rel_attempt R (in_sequence ps a) (in_sequence qs b)"
  using assms
proof (induction ps qs arbitrary: a b rule: list_all2_induct)
  case Nil
  then show ?case by simp
next
  case (Cons p ps q qs)
  from Cons.hyps(1) Cons.prems have "rel_attempt R (p a) (q b)" by blast
  then show ?case
  proof (cases rule: attempt.rel_cases)
    case (Done x y)
    with Cons.IH [of x y] show ?thesis by simp
  next
    case (Escaped e x e' y)
    then show ?thesis by simp
  next
    case (Stuck x y)
    then show ?thesis by simp
  qed
qed

lemma with_body_rel:
  assumes sim: "simulates W1 W2 Q c" and rel: "state_rel Q c st1 st2"
  shows "rel_attempt (state_rel Q c) (with_body W1 st1) (with_body W2 st2)"
  unfolding with_body_def
proof (rule in_sequence_rel [where R = "state_rel Q c"])
  show "state_rel Q c st1 st2" by (rule rel)
next
  have p: "ss_world (set_pattern k b st) = ss_world st" "ss_log (set_pattern k b st) = ss_log st"
    for k b and st :: "'a script_state" by (simp_all add: set_pattern_def)
  have f: "ss_world (set_feature k b st) = ss_world st" "ss_log (set_feature k b st) = ss_log st"
    for k b and st :: "'a script_state" by (simp_all add: set_feature_def)
  note pr = probe_rel [OF sim _ _ p] and fr = probe_rel [OF sim _ _ f]
  have ex: "rel_attempt (state_rel Q c) (probe_exchange W1 a) (probe_exchange W2 b)"
    if "state_rel Q c a b" for a b
    using that by (simp add: probe_exchange_def state_rel_def set_pattern_def)
  show "list_all2 (\<lambda>p q. \<forall>a b. state_rel Q c a b \<longrightarrow> rel_attempt (state_rel Q c) (p a) (q b))
         [probe_unary W1, probe_unary_void W1, probe_introspection W1,
          probe_error_propagation W1, probe_complex_types W1, probe_optional_types W1,
          probe_producer W1, probe_exchange W1]
         [probe_unary W2, probe_unary_void W2, probe_introspection W2,
          probe_error_propagation W2, probe_complex_types W2, probe_optional_types W2,
          probe_producer W2, probe_exchange W2]"
    by (simp add: probe_unary_def probe_unary_void_def probe_introspection_def
          probe_error_propagation_def probe_complex_types_def probe_optional_types_def
          probe_producer_def pr fr safe_bodies ex)
qed


lemma outer_except_not_ok: "\<not> printed_ok (fst (outer_except e st))"
  by (simp add: outer_except_def printed_ok_def)

lemma leave_with_rel:
  assumes sim: "simulates W1 W2 Q c" and rel: "state_rel Q c st1 st2"
    and c: "c \<noteq> Some Close"
  shows "printed_ok (fst (leave_with W1 pending st1)) = printed_ok (fst (leave_with W2 pending st2))
       \<and> state_rel Q c (snd (leave_with W1 pending st1)) (snd (leave_with W2 pending st2))"
proof -
  obtain o1 t1 where i1: "invoke W1 Close st1 = (o1, t1)" by (cases "invoke W1 Close st1")
  obtain o2 t2 where i2: "invoke W2 Close st2 = (o2, t2)" by (cases "invoke W2 Close st2")
  from invoke_rel(1) [OF sim rel, of Close] i1 i2 have t: "state_rel Q c t1 t2" by simp
  from c have "Some Close \<noteq> c" by blast
  from invoke_rel(2) [OF sim rel this] i1 i2 have "o1 = o2" by simp
  with t i1 i2 show ?thesis
    by (cases o2; cases pending)
       (simp_all add: leave_with_def outer_except_def printed_ok_def)
qed

lemma probe_script_rel:
  assumes sim: "simulates W1 W2 Q c" and q: "Q s1 s2"
    and c: "c \<noteq> Some Close" "c \<noteq> Some (Connect cmd)"
  shows "printed_ok (fst (probe_script W1 cmd s1)) = printed_ok (fst (probe_script W2 cmd s2))
       \<and> list_all2 (log_rel c) (ss_log (snd (probe_script W1 cmd s1)))
            (ss_log (snd (probe_script W2 cmd s2)))"
proof -
  let ?a = "\<lparr>ss_world = s1, ss_log = [], ss_patterns = [], ss_features = []\<rparr>"
  let ?b = "\<lparr>ss_world = s2, ss_log = [], ss_patterns = [], ss_features = []\<rparr>"
  from q have rel0: "state_rel Q c ?a ?b" by (simp add: state_rel_def)
  obtain o1 t1 where i1: "invoke W1 (Connect cmd) ?a = (o1, t1)"
    by (cases "invoke W1 (Connect cmd) ?a")
  obtain o2 t2 where i2: "invoke W2 (Connect cmd) ?b = (o2, t2)"
    by (cases "invoke W2 (Connect cmd) ?b")
  from invoke_rel(1) [OF sim rel0, of "Connect cmd"] i1 i2 have t: "state_rel Q c t1 t2"
    by simp
  from c have "Some (Connect cmd) \<noteq> c" by blast
  from invoke_rel(2) [OF sim rel0 this] i1 i2 have o: "o1 = o2" by simp
  show ?thesis
  proof (cases o2)
    case (Returns proxy)
    from with_body_rel [OF sim t]
    show ?thesis
    proof (cases rule: attempt.rel_cases)
      case (Done x y)
      with leave_with_rel [OF sim Done(3) c(1), of None] i1 i2 o Returns show ?thesis
        by (simp add: probe_script_def state_rel_def)
    next
      case (Escaped e x e' y)
      with leave_with_rel [OF sim Escaped(4) c(1), of "Some e"] i1 i2 o Returns show ?thesis
        by (simp add: probe_script_def state_rel_def)
    next
      case (Stuck x y)
      with i1 i2 o Returns show ?thesis
        by (simp add: probe_script_def state_rel_def printed_ok_def)
    qed
  next
    case (Raises e)
    with i1 i2 o t show ?thesis
      by (simp add: probe_script_def state_rel_def outer_except_def printed_ok_def)
  next
    case Hangs
    with i1 i2 o t show ?thesis
      by (simp add: probe_script_def state_rel_def printed_ok_def)
  qed
qed

lemma probe_capabilities_rel:
  assumes sim: "simulates W1 W2 Q c" and q: "Q s1 s2"
    and c: "c \<noteq> Some Close" "\<And>cmd. c \<noteq> Some (Connect cmd)"
    and py: "python_spawns W1 s1 repo_dir = python_spawns W2 s2 repo_dir"
  shows "results_printed W1 s1 worker_cmd repo_dir = results_printed W2 s2 worker_cmd repo_dir"
    and "list_all2 (log_rel c) (probe_log W1 s1 worker_cmd repo_dir)
           (probe_log W2 s2 worker_cmd repo_dir)"
proof -
  have ok: "printed_ok ex = (case ex of Printed doc \<Rightarrow> doc_error doc = None | Died e \<Rightarrow> False
                              | Hung \<Rightarrow> False)" for ex
    by (simp add: printed_ok_def)
  note r = probe_script_rel [OF sim q c(1) c(2)]
  show "results_printed W1 s1 worker_cmd repo_dir = results_printed W2 s2 worker_cmd repo_dir"
    using r py
    by (simp add: results_printed_def ok [symmetric] split: option.splits list.splits)
  show "list_all2 (log_rel c) (probe_log W1 s1 worker_cmd repo_dir)
           (probe_log W2 s2 worker_cmd repo_dir)"
    using r py
    by (simp add: probe_log_def split: option.splits list.splits)
qed

lemma rpc_with_outcome:
  "rpc (with_outcome W c out) s rq = (if rq = c then (out, snd (rpc W s rq)) else rpc W s rq)"
  "python_spawns (with_outcome W c out) = python_spawns W"
  by (simp_all add: with_outcome_def)

lemma stateless_simulates:
  assumes "\<forall>s s' rq. fst (rpc W s rq) = fst (rpc W s' rq)"
  shows "simulates W W (\<lambda>a b. True) None"
  using assms by (simp add: simulates_def)

lemma with_outcome_simulates:
  assumes "intercepted out" and "\<forall>s. intercepted (fst (rpc W s c))"
  shows "simulates W (with_outcome W c out) (=) (Some c)"
  using assms by (simp add: simulates_def rpc_with_outcome)

lemma log_rel_None: "list_all2 (log_rel None) xs ys \<longleftrightarrow> xs = ys"
proof -
  have "log_rel None = (=)"
    by (intro ext) (auto simp: log_rel_def prod_eq_iff)
  then show ?thesis by (simp add: list.rel_eq)
qed

text \<open>
  C9. For a worker whose answers do not depend on the state of the world (and an
  interpreter that starts or not regardless of it), probing from any two states gives the
  same result; in particular a second probe, started in the state the first one left,
  repeats the result of the first.
\<close>

theorem probing_twice:
  assumes "\<forall>s s' rq. fst (rpc W s rq) = fst (rpc W s' rq)"
    and "\<forall>s s' d. python_spawns W s d = python_spawns W s' d"
  shows "fst (probe_capabilities W s' worker_cmd repo_dir) =
         fst (probe_capabilities W s worker_cmd repo_dir)"
proof -
  note sim = stateless_simulates [OF assms(1)]
  from assms(2) have py: "python_spawns W s repo_dir = python_spawns W s' repo_dir" by blast
  have pr: "results_printed W s worker_cmd repo_dir = results_printed W s' worker_cmd repo_dir"
    by (rule probe_capabilities_rel(1) [OF sim _ _ _ py]) simp_all
  have "list_all2 (log_rel None) (probe_log W s worker_cmd repo_dir)
          (probe_log W s' worker_cmd repo_dir)"
    by (rule probe_capabilities_rel(2) [OF sim _ _ _ py]) simp_all
  then have lg: "probe_log W s worker_cmd repo_dir = probe_log W s' worker_cmd repo_dir"
    by (simp add: log_rel_None)
  show ?thesis
  proof (cases "results_printed W s worker_cmd repo_dir")
    case True
    from True obtain cmd proxy u o1 o2 o3 o4 o5 o6 o7 where
      l1: "probe_log W s worker_cmd repo_dir =
         [(Connect cmd, Returns proxy), (Add 1 2, o1), (VoidMethod, o2), (Introspect, o3),
          (RaiseError, o4), (EchoList (PyList [PyNum 1, PyNum 2, PyNum 3]), o5),
          (EchoOptional PyNone, o6), (CountStream 3, o7), (Close, Returns u)]" and
      a1: "fst (fst (probe_capabilities W s worker_cmd repo_dir)) =
         [(''unary'', v_unary o1), (''unary_void'', v_unary_void o2),
          (''producer'', v_producer o7), (''producer_with_header'', False),
          (''exchange'', True), (''exchange_with_header'', False)]" and
      b1: "snd (fst (probe_capabilities W s worker_cmd repo_dir)) =
         [(''introspection'', v_introspection o3), (''client_logging'', False),
          (''error_propagation'', v_error_propagation o4),
          (''complex_types'', v_complex_types o5), (''optional_types'', v_optional_types o6),
          (''dataclass_types'', False), (''annotated_types'', False),
          (''authentication'', False), (''external_storage'', False),
          (''opentelemetry'', False)]"
      by (rule probe_capabilities_printed)
    from True pr have "results_printed W s' worker_cmd repo_dir" by simp
    then obtain cmd' proxy' u' p1 p2 p3 p4 p5 p6 p7 where
      l2: "probe_log W s' worker_cmd repo_dir =
         [(Connect cmd', Returns proxy'), (Add 1 2, p1), (VoidMethod, p2), (Introspect, p3),
          (RaiseError, p4), (EchoList (PyList [PyNum 1, PyNum 2, PyNum 3]), p5),
          (EchoOptional PyNone, p6), (CountStream 3, p7), (Close, Returns u')]" and
      a2: "fst (fst (probe_capabilities W s' worker_cmd repo_dir)) =
         [(''unary'', v_unary p1), (''unary_void'', v_unary_void p2),
          (''producer'', v_producer p7), (''producer_with_header'', False),
          (''exchange'', True), (''exchange_with_header'', False)]" and
      b2: "snd (fst (probe_capabilities W s' worker_cmd repo_dir)) =
         [(''introspection'', v_introspection p3), (''client_logging'', False),
          (''error_propagation'', v_error_propagation p4),
          (''complex_types'', v_complex_types p5), (''optional_types'', v_optional_types p6),
          (''dataclass_types'', False), (''annotated_types'', False),
          (''authentication'', False), (''external_storage'', False),
          (''opentelemetry'', False)]"
      by (rule probe_capabilities_printed)
    from lg l1 l2 have "o1 = p1" "o2 = p2" "o3 = p3" "o4 = p4" "o5 = p5" "o6 = p6" "o7 = p7"
      by simp_all
    with a1 a2 b1 b2 show ?thesis by (simp add: prod_eq_iff)
  next
    case False
    with pr have "\<not> results_printed W s' worker_cmd repo_dir" by simp
    from probe_capabilities_not_printed [OF this] probe_capabilities_not_printed [OF False]
    show ?thesis by simp
  qed
qed

theorem probing_twice_witness:
  "fst (probe_capabilities conforming_world
          (snd (probe_capabilities conforming_world 0 (Some [''worker'']) ''repo''))
          (Some [''worker'']) ''repo'') =
   fst (probe_capabilities conforming_world 0 (Some [''worker'']) ''repo'')
   \<and> snd (probe_capabilities conforming_world 0 (Some [''worker'']) ''repo'') = 9"
proof -
  have h1: "\<forall>s s' rq. fst (rpc conforming_world s rq) = fst (rpc conforming_world s' rq)"
    by (simp add: conforming_world_def)
  have h2: "\<forall>s s' d. python_spawns conforming_world s d = python_spawns conforming_world s' d"
    by (simp add: conforming_world_def)
  have "snd (probe_capabilities conforming_world 0 (Some [''worker'']) ''repo'') = 9"
    by (simp add: script_defs world_defs)
  with probing_twice [OF h1 h2] show ?thesis by simp
qed

section \<open>Fault isolation\<close>

lemma recorded_zero:
  "recorded zero_result Pattern k = (if k \<in> set PATTERNS then Some False else None)"
  "recorded zero_result Feature k = (if k \<in> set FEATURES then Some False else None)"
  by (simp_all add: recorded_def zero_result_def PATTERNS_def FEATURES_def)

lemma v_accepted:
  "v_unary out = accepted (Add 1 2) out"
  "v_unary_void out = accepted VoidMethod out"
  "v_introspection out = accepted Introspect out"
  "v_error_propagation out = accepted RaiseError out"
  "v_complex_types out = accepted (EchoList (PyList [PyNum 1, PyNum 2, PyNum 3])) out"
  "v_optional_types out = accepted (EchoOptional PyNone) out"
  "v_producer out = accepted (CountStream 3) out"
proof -
  show "v_unary out = accepted (Add 1 2) out"
  proof (cases out)
    case (Returns r)
    then show ?thesis by (cases r) (simp_all add: verdict_def accepted_def)
  qed (simp_all add: verdict_def accepted_def)
  show "v_unary_void out = accepted VoidMethod out"
    by (cases out) (simp_all add: verdict_def accepted_def)
  show "v_introspection out = accepted Introspect out"
  proof (cases out)
    case (Returns r)
    then show ?thesis by (cases r) (simp_all add: verdict_def accepted_def)
  qed (simp_all add: verdict_def accepted_def)
  show "v_error_propagation out = accepted RaiseError out"
    by (cases out) (simp_all add: verdict_def accepted_def)
  show "v_complex_types out = accepted (EchoList (PyList [PyNum 1, PyNum 2, PyNum 3])) out"
    by (cases out) (simp_all add: verdict_def accepted_def)
  show "v_optional_types out = accepted (EchoOptional PyNone) out"
    by (cases out) (simp_all add: verdict_def accepted_def)
  show "v_producer out = accepted (CountStream 3) out"
  proof (cases out)
    case (Returns r)
    then show ?thesis by (cases r) (simp_all add: verdict_def accepted_def)
  qed (simp_all add: verdict_def accepted_def)
qed

text \<open>In a run that printed its results, every logged operation was kept to its probe.\<close>

lemma printed_intercepted:
  assumes "results_printed W s worker_cmd repo_dir"
    and "(rq, out) \<in> set (probe_log W s worker_cmd repo_dir)"
  shows "intercepted out"
  using assms(1)
proof (rule probe_capabilities_printed)
  fix cmd proxy u o1 o2 o3 o4 o5 o6 o7
  assume "probe_log W s worker_cmd repo_dir =
       [(Connect cmd, Returns proxy), (Add 1 2, o1), (VoidMethod, o2), (Introspect, o3),
        (RaiseError, o4), (EchoList (PyList [PyNum 1, PyNum 2, PyNum 3]), o5),
        (EchoOptional PyNone, o6), (CountStream 3, o7), (Close, Returns u)]"
    and "intercepted o1" "intercepted o2" "intercepted o3" "intercepted o4"
      "intercepted o5" "intercepted o6" "intercepted o7"
  with assms(2) show "intercepted out"
    by (auto simp: intercepted_def)
qed

text \<open>
  A run in which one of the seven calls does not come back never prints: the result is
  the all-\<open>False\<close> one.
\<close>

lemma hang_zero_result:
  assumes tab: "(c, cat, key) \<in> set probe_table"
  shows "fst (probe_capabilities (with_outcome W c Hangs) s worker_cmd repo_dir) = zero_result"
proof (rule probe_capabilities_not_printed, rule notI)
  let ?W = "with_outcome W c Hangs"
  assume printed: "results_printed ?W s worker_cmd repo_dir"
  then obtain cmd proxy u p1 p2 p3 p4 p5 p6 p7 where
    lg: "probe_log ?W s worker_cmd repo_dir =
       [(Connect cmd, Returns proxy), (Add 1 2, p1), (VoidMethod, p2), (Introspect, p3),
        (RaiseError, p4), (EchoList (PyList [PyNum 1, PyNum 2, PyNum 3]), p5),
        (EchoOptional PyNone, p6), (CountStream 3, p7), (Close, Returns u)]" and
    ps: "\<exists>s. p1 = fst (rpc ?W s (Add 1 2))" "\<exists>s. p2 = fst (rpc ?W s VoidMethod)"
      "\<exists>s. p3 = fst (rpc ?W s Introspect)" "\<exists>s. p4 = fst (rpc ?W s RaiseError)"
      "\<exists>s. p5 = fst (rpc ?W s (EchoList (PyList [PyNum 1, PyNum 2, PyNum 3])))"
      "\<exists>s. p6 = fst (rpc ?W s (EchoOptional PyNone))"
      "\<exists>s. p7 = fst (rpc ?W s (CountStream 3))"
    by (rule probe_capabilities_printed)
  from tab have "(c = Add 1 2 \<and> cat = Pattern \<and> key = ''unary'')
      \<or> (c = VoidMethod \<and> cat = Pattern \<and> key = ''unary_void'')
      \<or> (c = Introspect \<and> cat = Feature \<and> key = ''introspection'')
      \<or> (c = RaiseError \<and> cat = Feature \<and> key = ''error_propagation'')
      \<or> (c = EchoList (PyList [PyNum 1, PyNum 2, PyNum 3]) \<and> cat = Feature
            \<and> key = ''complex_types'')
      \<or> (c = EchoOptional PyNone \<and> cat = Feature \<and> key = ''optional_types'')
      \<or> (c = CountStream 3 \<and> cat = Pattern \<and> key = ''producer'')"
    unfolding probe_table_def by simp
  then show False
  proof (elim disjE conjE)
    assume "c = Add 1 2"
    with ps(1) have "p1 = Hangs" by (auto simp: rpc_with_outcome)
    with lg have "(Add 1 2, Hangs) \<in> set (probe_log ?W s worker_cmd repo_dir)" by simp
    from printed_intercepted [OF printed this] show False by (simp add: intercepted_def)
  next
    assume "c = VoidMethod"
    with ps(2) have "p2 = Hangs" by (auto simp: rpc_with_outcome)
    with lg have "(VoidMethod, Hangs) \<in> set (probe_log ?W s worker_cmd repo_dir)" by simp
    from printed_intercepted [OF printed this] show False by (simp add: intercepted_def)
  next
    assume "c = Introspect"
    with ps(3) have "p3 = Hangs" by (auto simp: rpc_with_outcome)
    with lg have "(Introspect, Hangs) \<in> set (probe_log ?W s worker_cmd repo_dir)" by simp
    from printed_intercepted [OF printed this] show False by (simp add: intercepted_def)
  next
    assume "c = RaiseError"
    with ps(4) have "p4 = Hangs" by (auto simp: rpc_with_outcome)
    with lg have "(RaiseError, Hangs) \<in> set (probe_log ?W s worker_cmd repo_dir)" by simp
    from printed_intercepted [OF printed this] show False by (simp add: intercepted_def)
  next
    assume "c = EchoList (PyList [PyNum 1, PyNum 2, PyNum 3])"
    with ps(5) have "p5 = Hangs" by (auto simp: rpc_with_outcome)
    with lg have "(EchoList (PyList [PyNum 1, PyNum 2, PyNum 3]), Hangs) \<in> set (probe_log ?W s worker_cmd repo_dir)" by simp
    from printed_intercepted [OF printed this] show False by (simp add: intercepted_def)
  next
    assume "c = EchoOptional PyNone"
    with ps(6) have "p6 = Hangs" by (auto simp: rpc_with_outcome)
    with lg have "(EchoOptional PyNone, Hangs) \<in> set (probe_log ?W s worker_cmd repo_dir)" by simp
    from printed_intercepted [OF printed this] show False by (simp add: intercepted_def)
  next
    assume "c = CountStream 3"
    with ps(7) have "p7 = Hangs" by (auto simp: rpc_with_outcome)
    with lg have "(CountStream 3, Hangs) \<in> set (probe_log ?W s worker_cmd repo_dir)" by simp
    from printed_intercepted [OF printed this] show False by (simp add: intercepted_def)
  qed
qed

text \<open>
  Replacing the outcome of one call by another that the probe keeps to itself: the other
  keys keep their values, and the probe's own key is true exactly when the script printed
  its results and the new outcome is an accepted one.
\<close>

lemma replaced_outcome:
  assumes tab: "(c, cat, key) \<in> set probe_table"
    and out: "intercepted out"
    and base: "\<forall>s. intercepted (fst (rpc W s c))"
  shows "(\<forall>cat' k. (cat', k) \<noteq> (cat, key) \<longrightarrow>
            recorded (fst (probe_capabilities (with_outcome W c out) s worker_cmd repo_dir)) cat' k
              = recorded (fst (probe_capabilities W s worker_cmd repo_dir)) cat' k)
       \<and> recorded (fst (probe_capabilities (with_outcome W c out) s worker_cmd repo_dir)) cat key
           = Some (results_printed (with_outcome W c out) s worker_cmd repo_dir \<and> accepted c out)"
proof -
  let ?W = "with_outcome W c out"
  note sim = with_outcome_simulates [OF out base]
  from tab have cc: "c \<noteq> Close" "\<And>cmd. c \<noteq> Connect cmd"
    by (auto simp: probe_table_def)
  have py: "python_spawns W s repo_dir = python_spawns ?W s repo_dir"
    by (simp add: rpc_with_outcome)
  have pr: "results_printed W s worker_cmd repo_dir = results_printed ?W s worker_cmd repo_dir"
    by (rule probe_capabilities_rel(1) [OF sim _ _ _ py]) (simp_all add: cc)
  have lr: "list_all2 (log_rel (Some c)) (probe_log W s worker_cmd repo_dir)
          (probe_log ?W s worker_cmd repo_dir)"
    by (rule probe_capabilities_rel(2) [OF sim _ _ _ py]) (simp_all add: cc)
  show ?thesis
  proof (cases "results_printed W s worker_cmd repo_dir")
    case False
    with pr have np: "\<not> results_printed ?W s worker_cmd repo_dir" by simp
    from probe_capabilities_not_printed [OF np] probe_capabilities_not_printed [OF False] tab np
    show ?thesis
      by (auto simp: recorded_zero probe_table_def PATTERNS_def FEATURES_def)
  next
    case True
    from True obtain cmd proxy u o1 o2 o3 o4 o5 o6 o7 where
      l1: "probe_log W s worker_cmd repo_dir =
         [(Connect cmd, Returns proxy), (Add 1 2, o1), (VoidMethod, o2), (Introspect, o3),
          (RaiseError, o4), (EchoList (PyList [PyNum 1, PyNum 2, PyNum 3]), o5),
          (EchoOptional PyNone, o6), (CountStream 3, o7), (Close, Returns u)]" and
      a1: "fst (fst (probe_capabilities W s worker_cmd repo_dir)) =
         [(''unary'', v_unary o1), (''unary_void'', v_unary_void o2),
          (''producer'', v_producer o7), (''producer_with_header'', False),
          (''exchange'', True), (''exchange_with_header'', False)]" and
      b1: "snd (fst (probe_capabilities W s worker_cmd repo_dir)) =
         [(''introspection'', v_introspection o3), (''client_logging'', False),
          (''error_propagation'', v_error_propagation o4),
          (''complex_types'', v_complex_types o5), (''optional_types'', v_optional_types o6),
          (''dataclass_types'', False), (''annotated_types'', False),
          (''authentication'', False), (''external_storage'', False),
          (''opentelemetry'', False)]"
      by (rule probe_capabilities_printed)
    from True pr have printed: "results_printed ?W s worker_cmd repo_dir" by simp
    then obtain cmd' proxy' u' p1 p2 p3 p4 p5 p6 p7 where
      l2: "probe_log ?W s worker_cmd repo_dir =
         [(Connect cmd', Returns proxy'), (Add 1 2, p1), (VoidMethod, p2), (Introspect, p3),
          (RaiseError, p4), (EchoList (PyList [PyNum 1, PyNum 2, PyNum 3]), p5),
          (EchoOptional PyNone, p6), (CountStream 3, p7), (Close, Returns u')]" and
      ps: "\<exists>s. p1 = fst (rpc ?W s (Add 1 2))" "\<exists>s. p2 = fst (rpc ?W s VoidMethod)"
        "\<exists>s. p3 = fst (rpc ?W s Introspect)" "\<exists>s. p4 = fst (rpc ?W s RaiseError)"
        "\<exists>s. p5 = fst (rpc ?W s (EchoList (PyList [PyNum 1, PyNum 2, PyNum 3])))"
        "\<exists>s. p6 = fst (rpc ?W s (EchoOptional PyNone))"
        "\<exists>s. p7 = fst (rpc ?W s (CountStream 3))" and
      a2: "fst (fst (probe_capabilities ?W s worker_cmd repo_dir)) =
         [(''unary'', v_unary p1), (''unary_void'', v_unary_void p2),
          (''producer'', v_producer p7), (''producer_with_header'', False),
          (''exchange'', True), (''exchange_with_header'', False)]" and
      b2: "snd (fst (probe_capabilities ?W s worker_cmd repo_dir)) =
         [(''introspection'', v_introspection p3), (''client_logging'', False),
          (''error_propagation'', v_error_propagation p4),
          (''complex_types'', v_complex_types p5), (''optional_types'', v_optional_types p6),
          (''dataclass_types'', False), (''annotated_types'', False),
          (''authentication'', False), (''external_storage'', False),
          (''opentelemetry'', False)]"
      by (rule probe_capabilities_printed)
    from lr have eqs:
      "c \<noteq> Add 1 2 \<Longrightarrow> p1 = o1" "c \<noteq> VoidMethod \<Longrightarrow> p2 = o2" "c \<noteq> Introspect \<Longrightarrow> p3 = o3"
      "c \<noteq> RaiseError \<Longrightarrow> p4 = o4"
      "c \<noteq> EchoList (PyList [PyNum 1, PyNum 2, PyNum 3]) \<Longrightarrow> p5 = o5"
      "c \<noteq> EchoOptional PyNone \<Longrightarrow> p6 = o6" "c \<noteq> CountStream 3 \<Longrightarrow> p7 = o7"
      unfolding l1 l2 by (auto simp: log_rel_def)
    from ps have own:
      "c = Add 1 2 \<Longrightarrow> p1 = out" "c = VoidMethod \<Longrightarrow> p2 = out" "c = Introspect \<Longrightarrow> p3 = out"
      "c = RaiseError \<Longrightarrow> p4 = out"
      "c = EchoList (PyList [PyNum 1, PyNum 2, PyNum 3]) \<Longrightarrow> p5 = out"
      "c = EchoOptional PyNone \<Longrightarrow> p6 = out" "c = CountStream 3 \<Longrightarrow> p7 = out"
      by (auto simp: rpc_with_outcome)
    have rp: "recorded (fst (probe_capabilities ?W s worker_cmd repo_dir)) Pattern k =
        map_of [(''unary'', v_unary p1), (''unary_void'', v_unary_void p2),
          (''producer'', v_producer p7), (''producer_with_header'', False),
          (''exchange'', True), (''exchange_with_header'', False)] k"
      "recorded (fst (probe_capabilities W s worker_cmd repo_dir)) Pattern k =
        map_of [(''unary'', v_unary o1), (''unary_void'', v_unary_void o2),
          (''producer'', v_producer o7), (''producer_with_header'', False),
          (''exchange'', True), (''exchange_with_header'', False)] k" for k
      by (simp_all only: recorded_def category.case a1 a2)
    have rf: "recorded (fst (probe_capabilities ?W s worker_cmd repo_dir)) Feature k =
        map_of [(''introspection'', v_introspection p3), (''client_logging'', False),
          (''error_propagation'', v_error_propagation p4),
          (''complex_types'', v_complex_types p5), (''optional_types'', v_optional_types p6),
          (''dataclass_types'', False), (''annotated_types'', False),
          (''authentication'', False), (''external_storage'', False),
          (''opentelemetry'', False)] k"
      "recorded (fst (probe_capabilities W s worker_cmd repo_dir)) Feature k =
        map_of [(''introspection'', v_introspection o3), (''client_logging'', False),
          (''error_propagation'', v_error_propagation o4),
          (''complex_types'', v_complex_types o5), (''optional_types'', v_optional_types o6),
          (''dataclass_types'', False), (''annotated_types'', False),
          (''authentication'', False), (''external_storage'', False),
          (''opentelemetry'', False)] k" for k
      by (simp_all only: recorded_def category.case b1 b2)
    from tab consider
        (unary) "c = Add 1 2" "cat = Pattern" "key = ''unary''"
      | (unary_void) "c = VoidMethod" "cat = Pattern" "key = ''unary_void''"
      | (introspection) "c = Introspect" "cat = Feature" "key = ''introspection''"
      | (error_propagation) "c = RaiseError" "cat = Feature" "key = ''error_propagation''"
      | (complex_types) "c = EchoList (PyList [PyNum 1, PyNum 2, PyNum 3])" "cat = Feature"
          "key = ''complex_types''"
      | (optional_types) "c = EchoOptional PyNone" "cat = Feature" "key = ''optional_types''"
      | (producer) "c = CountStream 3" "cat = Pattern" "key = ''producer''"
    proof -
      from tab have "(c = Add 1 2 \<and> cat = Pattern \<and> key = ''unary'')
        \<or> (c = VoidMethod \<and> cat = Pattern \<and> key = ''unary_void'')
        \<or> (c = Introspect \<and> cat = Feature \<and> key = ''introspection'')
        \<or> (c = RaiseError \<and> cat = Feature \<and> key = ''error_propagation'')
        \<or> (c = EchoList (PyList [PyNum 1, PyNum 2, PyNum 3]) \<and> cat = Feature
              \<and> key = ''complex_types'')
        \<or> (c = EchoOptional PyNone \<and> cat = Feature \<and> key = ''optional_types'')
        \<or> (c = CountStream 3 \<and> cat = Pattern \<and> key = ''producer'')"
        unfolding probe_table_def by simp
      then show thesis
        by (elim disjE conjE) (erule (2) that)+
    qed
    then show ?thesis
    proof cases
      case unary
      from eqs unary(1) have e: "p2 = o2" "p3 = o3" "p4 = o4" "p5 = o5" "p6 = o6" "p7 = o7"
        by simp_all
      from own unary(1) have o: "p1 = out" by simp
      have val: "recorded (fst (probe_capabilities ?W s worker_cmd repo_dir)) cat key
                   = Some (v_unary out)"
        using unary(2,3) by (simp add: rp rf o)
      have "recorded (fst (probe_capabilities ?W s worker_cmd repo_dir)) cat' k
              = recorded (fst (probe_capabilities W s worker_cmd repo_dir)) cat' k"
        if "(cat', k) \<noteq> (cat, key)" for cat' k
        using that unary(2,3) by (cases cat') (simp_all add: rp rf e)
      moreover have "recorded (fst (probe_capabilities ?W s worker_cmd repo_dir)) cat key
                   = Some (results_printed ?W s worker_cmd repo_dir \<and> accepted c out)"
        using val printed unary(1) by (simp add: v_accepted)
      ultimately show ?thesis by blast
    next
      case unary_void
      from eqs unary_void(1) have e: "p1 = o1" "p3 = o3" "p4 = o4" "p5 = o5" "p6 = o6" "p7 = o7"
        by simp_all
      from own unary_void(1) have o: "p2 = out" by simp
      have val: "recorded (fst (probe_capabilities ?W s worker_cmd repo_dir)) cat key
                   = Some (v_unary_void out)"
        using unary_void(2,3) by (simp add: rp rf o)
      have "recorded (fst (probe_capabilities ?W s worker_cmd repo_dir)) cat' k
              = recorded (fst (probe_capabilities W s worker_cmd repo_dir)) cat' k"
        if "(cat', k) \<noteq> (cat, key)" for cat' k
        using that unary_void(2,3) by (cases cat') (simp_all add: rp rf e)
      moreover have "recorded (fst (probe_capabilities ?W s worker_cmd repo_dir)) cat key
                   = Some (results_printed ?W s worker_cmd repo_dir \<and> accepted c out)"
        using val printed unary_void(1) by (simp add: v_accepted)
      ultimately show ?thesis by blast
    next
      case introspection
      from eqs introspection(1) have e: "p1 = o1" "p2 = o2" "p4 = o4" "p5 = o5" "p6 = o6" "p7 = o7"
        by simp_all
      from own introspection(1) have o: "p3 = out" by simp
      have val: "recorded (fst (probe_capabilities ?W s worker_cmd repo_dir)) cat key
                   = Some (v_introspection out)"
        using introspection(2,3) by (simp add: rp rf o)
      have "recorded (fst (probe_capabilities ?W s worker_cmd repo_dir)) cat' k
              = recorded (fst (probe_capabilities W s worker_cmd repo_dir)) cat' k"
        if "(cat', k) \<noteq> (cat, key)" for cat' k
        using that introspection(2,3) by (cases cat') (simp_all add: rp rf e)
      moreover have "recorded (fst (probe_capabilities ?W s worker_cmd repo_dir)) cat key
                   = Some (results_printed ?W s worker_cmd repo_dir \<and> accepted c out)"
        using val printed introspection(1) by (simp add: v_accepted)
      ultimately show ?thesis by blast
    next
      case error_propagation
      from eqs error_propagation(1) have e: "p1 = o1" "p2 = o2" "p3 = o3" "p5 = o5" "p6 = o6" "p7 = o7"
        by simp_all
      from own error_propagation(1) have o: "p4 = out" by simp
      have val: "recorded (fst (probe_capabilities ?W s worker_cmd repo_dir)) cat key
                   = Some (v_error_propagation out)"
        using error_propagation(2,3) by (simp add: rp rf o)
      have "recorded (fst (probe_capabilities ?W s worker_cmd repo_dir)) cat' k
              = recorded (fst (probe_capabilities W s worker_cmd repo_dir)) cat' k"
        if "(cat', k) \<noteq> (cat, key)" for cat' k
        using that error_propagation(2,3) by (cases cat') (simp_all add: rp rf e)
      moreover have "recorded (fst (probe_capabilities ?W s worker_cmd repo_dir)) cat key
                   = Some (results_printed ?W s worker_cmd repo_dir \<and> accepted c out)"
        using val printed error_propagation(1) by (simp add: v_accepted)
      ultimately show ?thesis by blast
    next
      case complex_types
      from eqs complex_types(1) have e: "p1 = o1" "p2 = o2" "p3 = o3" "p4 = o4" "p6 = o6" "p7 = o7"
        by simp_all
      from own complex_types(1) have o: "p5 = out" by simp
      have val: "recorded (fst (probe_capabilities ?W s worker_cmd repo_dir)) cat key
                   = Some (v_complex_types out)"
        using complex_types(2,3) by (simp add: rp rf o)
      have "recorded (fst (probe_capabilities ?W s worker_cmd repo_dir)) cat' k
              = recorded (fst (probe_capabilities W s worker_cmd repo_dir)) cat' k"
        if "(cat', k) \<noteq> (cat, key)" for cat' k
        using that complex_types(2,3) by (cases cat') (simp_all add: rp rf e)
      moreover have "recorded (fst (probe_capabilities ?W s worker_cmd repo_dir)) cat key
                   = Some (results_printed ?W s worker_cmd repo_dir \<and> accepted c out)"
        using val printed complex_types(1) by (simp add: v_accepted)
      ultimately show ?thesis by blast
    next
      case optional_types
      from eqs optional_types(1) have e: "p1 = o1" "p2 = o2" "p3 = o3" "p4 = o4" "p5 = o5" "p7 = o7"
        by simp_all
      from own optional_types(1) have o: "p6 = out" by simp
      have val: "recorded (fst (probe_capabilities ?W s worker_cmd repo_dir)) cat key
                   = Some (v_optional_types out)"
        using optional_types(2,3) by (simp add: rp rf o)
      have "recorded (fst (probe_capabilities ?W s worker_cmd repo_dir)) cat' k
              = recorded (fst (probe_capabilities W s worker_cmd repo_dir)) cat' k"
        if "(cat', k) \<noteq> (cat, key)" for cat' k
        using that optional_types(2,3) by (cases cat') (simp_all add: rp rf e)
      moreover have "recorded (fst (probe_capabilities ?W s worker_cmd repo_dir)) cat key
                   = Some (results_printed ?W s worker_cmd repo_dir \<and> accepted c out)"
        using val printed optional_types(1) by (simp add: v_accepted)
      ultimately show ?thesis by blast
    next
      case producer
      from eqs producer(1) have e: "p1 = o1" "p2 = o2" "p3 = o3" "p4 = o4" "p5 = o5" "p6 = o6"
        by simp_all
      from own producer(1) have o: "p7 = out" by simp
      have val: "recorded (fst (probe_capabilities ?W s worker_cmd repo_dir)) cat key
                   = Some (v_producer out)"
        using producer(2,3) by (simp add: rp rf o)
      have "recorded (fst (probe_capabilities ?W s worker_cmd repo_dir)) cat' k
              = recorded (fst (probe_capabilities W s worker_cmd repo_dir)) cat' k"
        if "(cat', k) \<noteq> (cat, key)" for cat' k
        using that producer(2,3) by (cases cat') (simp_all add: rp rf e)
      moreover have "recorded (fst (probe_capabilities ?W s worker_cmd repo_dir)) cat key
                   = Some (results_printed ?W s worker_cmd repo_dir \<and> accepted c out)"
        using val printed producer(1) by (simp add: v_accepted)
      ultimately show ?thesis by blast
    qed
  qed
qed

text \<open>
  C3, as stated, fails for a probe that exceeds its time: the worker whose stream never
  ends differs from the conforming one in the producer probe only, yet \<open>unary\<close>, true
  against the conforming worker, is false against it. The script prints nothing before its
  end, and the subprocess is abandoned as a whole after 60 seconds.
\<close>

theorem stalled_probe_clears_others:
  "recorded (fst (probe_capabilities conforming_world 0 (Some [''worker'']) ''repo''))
     Pattern ''unary'' = Some True
   \<and> stalled_stream_world = with_outcome conforming_world (CountStream 3) Hangs
   \<and> recorded (fst (probe_capabilities stalled_stream_world 0 (Some [''worker'']) ''repo''))
     Pattern ''unary'' = Some False"
  by (simp add: script_defs world_defs recorded_def)

text \<open>
  C3, amended. Take one of the seven calls of the script and replace its outcome by any
  outcome its probe keeps to itself (a return, whatever the value, or an exception
  \<open>except Exception\<close> intercepts), in a world where the call had such an outcome already.
  Every key other than the probe's own keeps its value. The probe's own key is true
  exactly when the script ran to its end and the outcome is the accepted one: for
  \<open>raise_error\<close> an exception whose class name contains \<open>RpcError\<close>, for the other calls a
  returned value that passes the check of the probe. So the own key is \<open>False\<close> when the
  call raises (for every probe but error propagation), when \<open>raise_error\<close> raises
  something else or returns, and when a value is returned that fails the check; the
  probe of \<open>void_method\<close> has no check and takes any returned value as success. A call
  that does not come back is not isolated: the script never prints, and every key of the
  result is \<open>False\<close>.
\<close>

theorem fault_isolation:
  assumes tab: "(c, cat, key) \<in> set probe_table"
    and out: "intercepted out"
    and base: "\<forall>s. intercepted (fst (rpc W s c))"
  shows "(\<forall>cat' k. (cat', k) \<noteq> (cat, key) \<longrightarrow>
            recorded (fst (probe_capabilities (with_outcome W c out) s worker_cmd repo_dir)) cat' k
              = recorded (fst (probe_capabilities W s worker_cmd repo_dir)) cat' k)
       \<and> recorded (fst (probe_capabilities (with_outcome W c out) s worker_cmd repo_dir)) cat key
           = Some (results_printed (with_outcome W c out) s worker_cmd repo_dir \<and> accepted c out)
       \<and> ((\<exists>e. out = Raises e) \<and> c \<noteq> RaiseError \<longrightarrow>
            recorded (fst (probe_capabilities (with_outcome W c out) s worker_cmd repo_dir)) cat key
              = Some False)
       \<and> ((\<exists>e. out = Raises e \<and> \<not> sublist ''RpcError'' (exc_type_name e)) \<longrightarrow>
            recorded (fst (probe_capabilities (with_outcome W c out) s worker_cmd repo_dir)) cat key
              = Some False)
       \<and> ((\<exists>r. out = Returns r \<and> \<not> passes c r) \<longrightarrow>
            recorded (fst (probe_capabilities (with_outcome W c out) s worker_cmd repo_dir)) cat key
              = Some False)
       \<and> ((\<exists>r. out = Returns r) \<and> c = VoidMethod \<longrightarrow>
            recorded (fst (probe_capabilities (with_outcome W c out) s worker_cmd repo_dir)) cat key
              = Some (results_printed (with_outcome W c out) s worker_cmd repo_dir))
       \<and> fst (probe_capabilities (with_outcome W c Hangs) s worker_cmd repo_dir) = zero_result"
proof -
  note core = replaced_outcome [OF tab out base, of s worker_cmd repo_dir]
  from core have iso: "\<forall>cat' k. (cat', k) \<noteq> (cat, key) \<longrightarrow>
            recorded (fst (probe_capabilities (with_outcome W c out) s worker_cmd repo_dir)) cat' k
              = recorded (fst (probe_capabilities W s worker_cmd repo_dir)) cat' k"
    and own: "recorded (fst (probe_capabilities (with_outcome W c out) s worker_cmd repo_dir)) cat key
           = Some (results_printed (with_outcome W c out) s worker_cmd repo_dir \<and> accepted c out)"
    by blast+
  have a: "recorded (fst (probe_capabilities (with_outcome W c out) s worker_cmd repo_dir)) cat key
              = Some False" if "out = Raises e" "c \<noteq> RaiseError" for e
    unfolding own using that by (simp add: accepted_def)
  have b: "recorded (fst (probe_capabilities (with_outcome W c out) s worker_cmd repo_dir)) cat key
              = Some False" if "out = Raises e" "\<not> sublist ''RpcError'' (exc_type_name e)" for e
    unfolding own using that by (simp add: accepted_def)
  have d: "recorded (fst (probe_capabilities (with_outcome W c out) s worker_cmd repo_dir)) cat key
              = Some False" if "out = Returns r" "\<not> passes c r" for r
    unfolding own using that by (simp add: accepted_def)
  have e: "recorded (fst (probe_capabilities (with_outcome W c out) s worker_cmd repo_dir)) cat key
              = Some (results_printed (with_outcome W c out) s worker_cmd repo_dir)"
    if "out = Returns r" "c = VoidMethod" for r
    unfolding own using that by (simp add: accepted_def)
  note h = hang_zero_result [OF tab, of W s worker_cmd repo_dir]
  from iso own a b d e h show ?thesis by blast
qed

theorem fault_isolation_witness:
  "(Add 1 2, Pattern, ''unary'') \<in> set probe_table
   \<and> intercepted (Raises (Exc ''BrokenPipeError'' True 1))
   \<and> recorded (fst (probe_capabilities
          (with_outcome conforming_world (Add 1 2) (Raises (Exc ''BrokenPipeError'' True 1)))
          0 (Some [''worker'']) ''repo'')) Pattern ''unary'' = Some False
   \<and> recorded (fst (probe_capabilities
          (with_outcome conforming_world (Add 1 2) (Raises (Exc ''BrokenPipeError'' True 1)))
          0 (Some [''worker'']) ''repo'')) Pattern ''producer'' = Some True
   \<and> recorded (fst (probe_capabilities
          (with_outcome conforming_world (Add 1 2) (Raises (Exc ''BrokenPipeError'' True 1)))
          0 (Some [''worker'']) ''repo'')) Feature ''optional_types'' = Some True
   \<and> recorded (fst (probe_capabilities
          (with_outcome conforming_world (Add 1 2) (Returns (PyNum 5)))
          0 (Some [''worker'']) ''repo'')) Pattern ''unary'' = Some False
   \<and> fst (probe_capabilities (with_outcome conforming_world (Add 1 2) Hangs)
          0 (Some [''worker'']) ''repo'') = zero_result
   \<and> (EchoList (PyList [PyNum 1, PyNum 2, PyNum 3]), Feature, ''complex_types'') \<in> set probe_table
   \<and> recorded (fst (probe_capabilities
          (with_outcome conforming_world (EchoList (PyList [PyNum 1, PyNum 2, PyNum 3]))
             (Returns (PyStr ''123'')))
          0 (Some [''worker'']) ''repo'')) Feature ''complex_types'' = Some False
   \<and> (VoidMethod, Pattern, ''unary_void'') \<in> set probe_table
   \<and> recorded (fst (probe_capabilities
          (with_outcome conforming_world VoidMethod (Returns (PyStr ''garbage'')))
          0 (Some [''worker'']) ''repo'')) Pattern ''unary_void'' = Some True"
proof -
  have h1: "(Add 1 2, Pattern, ''unary'') \<in> set probe_table"
    "(EchoList (PyList [PyNum 1, PyNum 2, PyNum 3]), Feature, ''complex_types'') \<in> set probe_table"
    "(VoidMethod, Pattern, ''unary_void'') \<in> set probe_table"
    by (simp_all add: probe_table_def)
  have h2: "intercepted (Raises (Exc ''BrokenPipeError'' True 1))"
    "intercepted (Returns (PyNum 5))" "intercepted (Returns (PyStr ''123''))"
    "intercepted (Returns (PyStr ''garbage''))"
    by (simp_all add: intercepted_def)
  have h3: "\<forall>s. intercepted (fst (rpc conforming_world s rq))" for rq
    by (cases rq) (simp_all add: conforming_world_def intercepted_def)
  have base: "recorded (fst (probe_capabilities conforming_world 0 (Some [''worker'']) ''repo''))
                Pattern ''producer'' = Some True"
    "recorded (fst (probe_capabilities conforming_world 0 (Some [''worker'']) ''repo''))
                Feature ''optional_types'' = Some True"
    by (simp_all add: script_defs world_defs recorded_def)
  have printed: "results_printed (with_outcome conforming_world VoidMethod (Returns (PyStr ''garbage'')))
                   0 (Some [''worker'']) ''repo''"
    by (simp add: script_defs world_defs)
  have np: "\<not> passes (Add 1 2) (PyNum 5)"
    "\<not> passes (EchoList (PyList [PyNum 1, PyNum 2, PyNum 3])) (PyStr ''123'')"
    by simp_all
  note a = fault_isolation [OF h1(1) h2(1) h3, of 0 "Some [''worker'']" "''repo''"]
  note b = fault_isolation [OF h1(1) h2(2) h3, of 0 "Some [''worker'']" "''repo''"]
  note c = fault_isolation [OF h1(2) h2(3) h3, of 0 "Some [''worker'']" "''repo''"]
  note d = fault_isolation [OF h1(3) h2(4) h3, of 0 "Some [''worker'']" "''repo''"]
  from a have a1: "recorded (fst (probe_capabilities
          (with_outcome conforming_world (Add 1 2) (Raises (Exc ''BrokenPipeError'' True 1)))
          0 (Some [''worker'']) ''repo'')) Pattern ''unary'' = Some False"
    by blast
  from a have a2: "recorded (fst (probe_capabilities
          (with_outcome conforming_world (Add 1 2) (Raises (Exc ''BrokenPipeError'' True 1)))
          0 (Some [''worker'']) ''repo'')) Pattern ''producer'' =
       recorded (fst (probe_capabilities conforming_world 0 (Some [''worker'']) ''repo''))
          Pattern ''producer''"
    by simp
  from a have a3: "recorded (fst (probe_capabilities
          (with_outcome conforming_world (Add 1 2) (Raises (Exc ''BrokenPipeError'' True 1)))
          0 (Some [''worker'']) ''repo'')) Feature ''optional_types'' =
       recorded (fst (probe_capabilities conforming_world 0 (Some [''worker'']) ''repo''))
          Feature ''optional_types''"
    by simp
  from a have a4: "fst (probe_capabilities (with_outcome conforming_world (Add 1 2) Hangs)
          0 (Some [''worker'']) ''repo'') = zero_result"
    by blast
  from b np(1) have b1: "recorded (fst (probe_capabilities
          (with_outcome conforming_world (Add 1 2) (Returns (PyNum 5)))
          0 (Some [''worker'']) ''repo'')) Pattern ''unary'' = Some False"
    by blast
  from c np(2) have c1: "recorded (fst (probe_capabilities
          (with_outcome conforming_world (EchoList (PyList [PyNum 1, PyNum 2, PyNum 3]))
             (Returns (PyStr ''123'')))
          0 (Some [''worker'']) ''repo'')) Feature ''complex_types'' = Some False"
    by blast
  from d printed have d1: "recorded (fst (probe_capabilities
          (with_outcome conforming_world VoidMethod (Returns (PyStr ''garbage'')))
          0 (Some [''worker'']) ''repo'')) Pattern ''unary_void'' = Some True"
    by (simp add: accepted_def)
  from h1 h2(1) a1 a2 a3 a4 b1 c1 d1 base show ?thesis by simp
qed

section \<open>The loop over the implementations\<close>

lemma clone_or_pull_git_starts:
  assumes "git_starts W"
  shows "\<exists>cloned. fst (clone_or_pull W s repo_url target_dir) = Inr cloned"
proof -
  from assms obtain r1 where
    "fst (subprocess_run W s [''git'', ''pull'', ''--ff-only''] (Some target_dir) None) = Inr r1"
    unfolding git_starts_def by force
  moreover from assms obtain r2 where
    "fst (subprocess_run W s [''git'', ''clone'', ''--depth=1'', repo_url, target_dir] None None)
       = Inr r2"
    unfolding git_starts_def by force
  ultimately show ?thesis
    by (auto simp: clone_or_pull_def split: prod.splits sum.splits)
qed

lemma test_language_record:
  assumes "test_language W repos_dir (name, config) s langs = Inr (langs', s')"
  shows "\<exists>version ps fs. langs' = AList.update name (capability_record version config ps fs) langs
           \<and> map fst ps = PATTERNS \<and> map fst fs = FEATURES"
proof -
  let ?dir = "repos_dir @ ''/'' @ ''vgi-rpc-'' @ name"
  obtain c s1 where cl: "clone_or_pull W s (cfg_repo config) ?dir = (c, s1)"
    by (cases "clone_or_pull W s (cfg_repo config) ?dir")
  with assms obtain cloned where c: "c = Inr cloned"
    by (cases c) (simp_all add: test_language_def)
  show ?thesis
  proof (cases "\<not> cloned \<and> \<not> path_exists W s1 ?dir")
    case True
    with assms cl c
    have "langs' = AList.update name
            (capability_record None config (map (\<lambda>p. (p, False)) PATTERNS)
               (map (\<lambda>f. (f, False)) FEATURES)) langs"
      by (simp add: test_language_def)
    then show ?thesis by (auto simp: comp_def intro!: exI)
  next
    case False
    obtain version s2 where gv: "get_version W s1 config ?dir = (version, s2)"
      by (cases "get_version W s1 config ?dir")
    obtain wc s3 where bs: "build_step W s2 config ?dir = (wc, s3)"
      by (cases "build_step W s2 config ?dir")
    obtain ps fs s4 where pc: "probe_capabilities W s3 wc ?dir = ((ps, fs), s4)"
      by (cases "probe_capabilities W s3 wc ?dir") auto
    from assms cl c False gv bs pc
    have l: "langs' = AList.update name (capability_record version config ps fs) langs"
      by (auto simp: test_language_def)
    from probe_result_keys [of W s3 wc ?dir] pc
    have "map fst ps = PATTERNS" "map fst fs = FEATURES" by simp_all
    with l show ?thesis by blast
  qed
qed

lemma test_language_git_starts:
  assumes "git_starts W"
  shows "\<exists>langs' s'. test_language W repos_dir (name, config) s langs = Inr (langs', s')"
proof -
  let ?dir = "repos_dir @ ''/'' @ ''vgi-rpc-'' @ name"
  from clone_or_pull_git_starts [OF assms, of s "cfg_repo config" ?dir]
  obtain cloned s1 where cl: "clone_or_pull W s (cfg_repo config) ?dir = (Inr cloned, s1)"
    by (cases "clone_or_pull W s (cfg_repo config) ?dir") auto
  obtain version s2 where gv: "get_version W s1 config ?dir = (version, s2)"
    by (cases "get_version W s1 config ?dir")
  obtain wc s3 where bs: "build_step W s2 config ?dir = (wc, s3)"
    by (cases "build_step W s2 config ?dir")
  obtain ps fs s4 where pc: "probe_capabilities W s3 wc ?dir = ((ps, fs), s4)"
    by (cases "probe_capabilities W s3 wc ?dir") auto
  from cl gv bs pc show ?thesis
    by (simp add: test_language_def Let_def)
qed

text \<open>
  The loop: whatever each round is known to store for its language is found in the
  result, as long as no language is listed twice.
\<close>

lemma for_languages_records:
  assumes "for_languages W repos_dir items s langs = Inr (langs', s')"
    and "distinct (map fst items)"
    and "\<forall>name config s0 l0 l1 s1.
           (name, config) \<in> set items \<longrightarrow>
           test_language W repos_dir (name, config) s0 l0 = Inr (l1, s1) \<longrightarrow>
           (\<exists>entry. l1 = AList.update name entry l0 \<and> P name config entry)"
  shows "(\<forall>(name, config) \<in> set items.
            \<exists>entry. map_of langs' name = Some entry \<and> P name config entry)
       \<and> (\<forall>name. name \<notin> fst ` set items \<longrightarrow> map_of langs' name = map_of langs name)
       \<and> set (map fst langs') = set (map fst langs) \<union> fst ` set items"
  using assms
proof (induction items arbitrary: s langs)
  case Nil
  then show ?case by simp
next
  case (Cons item items)
  obtain name config where item: "item = (name, config)" by (cases item)
  from Cons.prems(1) obtain l1 s1 where
    step: "test_language W repos_dir (name, config) s langs = Inr (l1, s1)" and
    rest: "for_languages W repos_dir items s1 l1 = Inr (langs', s')"
    by (auto simp: item split: sum.splits)
  have "(name, config) \<in> set (item # items)" by (simp add: item)
  with Cons.prems(3) step obtain entry where
    l1: "l1 = AList.update name entry langs" and p: "P name config entry"
    by blast
  from Cons.prems(2) have d: "distinct (map fst items)" and fresh: "name \<notin> fst ` set items"
    by (simp_all add: item)
  from Cons.prems(3) have sub: "\<forall>name config s0 l0 l1 s1.
           (name, config) \<in> set items \<longrightarrow>
           test_language W repos_dir (name, config) s0 l0 = Inr (l1, s1) \<longrightarrow>
           (\<exists>entry. l1 = AList.update name entry l0 \<and> P name config entry)"
    by simp
  note ih = Cons.IH [of s1 l1, OF rest d sub]
  from ih have
    ih1: "\<forall>(name, config) \<in> set items.
            \<exists>entry. map_of langs' name = Some entry \<and> P name config entry" and
    ih2: "\<forall>n. n \<notin> fst ` set items \<longrightarrow> map_of langs' n = map_of l1 n" and
    ih3: "set (map fst langs') = set (map fst l1) \<union> fst ` set items"
    by blast+
  from ih2 fresh l1 have "map_of langs' name = Some entry"
    by (simp add: update_conv')
  with p ih1 have a: "\<forall>(name, config) \<in> set (item # items).
            \<exists>entry. map_of langs' name = Some entry \<and> P name config entry"
    by (simp add: item)
  from ih2 l1 have b: "\<forall>n. n \<notin> fst ` set (item # items) \<longrightarrow> map_of langs' n = map_of langs n"
    by (simp add: item update_conv')
  from ih3 l1 have c: "set (map fst langs') = set (map fst langs) \<union> fst ` set (item # items)"
    by (auto simp: item update_keys)
  from a b c show ?case by blast
qed

lemma for_languages_git_starts:
  assumes "git_starts W"
  shows "\<exists>langs' s'. for_languages W repos_dir items s langs = Inr (langs', s')"
proof (induction items arbitrary: s langs)
  case Nil
  then show ?case by simp
next
  case (Cons item items)
  obtain name config where item: "item = (name, config)" by (cases item)
  from test_language_git_starts [OF assms, of repos_dir name config s langs]
  obtain l1 s1 where "test_language W repos_dir (name, config) s langs = Inr (l1, s1)"
    by blast
  with Cons.IH [of s1 l1] show ?case by (simp add: item)
qed

lemma LANGUAGES_names: "map fst LANGUAGES = [''python'', ''typescript'', ''go'', ''cpp'']"
  by (simp add: LANGUAGES_def)

lemma test_all_records:
  assumes "test_all_capabilities W s repos_dir = Inr (snap, s')"
    and "\<forall>name config s0 l0 l1 s1.
           (name, config) \<in> set LANGUAGES \<longrightarrow>
           test_language W repos_dir (name, config) s0 l0 = Inr (l1, s1) \<longrightarrow>
           (\<exists>entry. l1 = AList.update name entry l0 \<and> P name config entry)"
    and "(name, config) \<in> set LANGUAGES"
  shows "\<exists>entry. map_of (languages snap) name = Some entry \<and> P name config entry"
proof -
  from assms(1) obtain langs where
    run: "for_languages W repos_dir LANGUAGES s [] = Inr (langs, s')" and
    snap: "languages snap = langs"
    by (auto simp: test_all_capabilities_def split: sum.splits)
  have d: "distinct (map fst LANGUAGES)" by (simp add: LANGUAGES_names)
  from for_languages_records [OF run d assms(2)]
  have "\<forall>(name, config) \<in> set LANGUAGES.
            \<exists>entry. map_of langs name = Some entry \<and> P name config entry"
    by blast
  with assms(3) snap show ?thesis by blast
qed

text \<open>
  C10. In every snapshot the program produces, the record of every configured
  implementation has, under \<open>transports\<close>, exactly the \<open>known_transports\<close> of its
  configuration, whichever way cloning, version extraction, building and probing went; so
  also in the record stored when cloning failed and in the records of all-\<open>False\<close>
  results.
\<close>

theorem transports_from_configuration:
  assumes "test_all_capabilities W s repos_dir = Inr (snap, s')"
    and "(name, config) \<in> set LANGUAGES"
  shows "\<exists>entry. map_of (languages snap) name = Some entry
           \<and> map_of entry ''transports'' = Some (JFlags (cfg_known_transports config))"
proof (rule test_all_records
         [where P = "\<lambda>n c entry. map_of entry ''transports'' = Some (JFlags (cfg_known_transports c))",
          OF assms(1) _ assms(2)],
       intro allI impI)
  fix n c s0 l0 l1 s1
  assume "test_language W repos_dir (n, c) s0 l0 = Inr (l1, s1)"
  from test_language_record [OF this] obtain version ps fs where
    "l1 = AList.update n (capability_record version c ps fs) l0" by blast
  moreover have "map_of (capability_record version c ps fs) ''transports''
                   = Some (JFlags (cfg_known_transports c))"
    by (simp add: capability_record_def)
  ultimately show "\<exists>entry. l1 = AList.update n entry l0
           \<and> map_of entry ''transports'' = Some (JFlags (cfg_known_transports c))"
    by blast
qed

lemma offline_git_starts: "git_starts offline_world"
  by (simp add: git_starts_def offline_world_def)

lemma python_in_LANGUAGES:
  "\<exists>config. (''python'', config) \<in> set LANGUAGES
      \<and> cfg_known_transports config = transports_of True True True True True True
      \<and> cfg_worker_cmd config = Some [''uv'', ''run'', ''python'', ''-m'', ''vgi_rpc.conformance.worker'']"
  by (simp add: LANGUAGES_def)

theorem transports_from_configuration_witness:
  "\<exists>snap s' entry.
      test_all_capabilities offline_world 0 ''repos'' = Inr (snap, s')
      \<and> map_of (languages snap) ''python'' = Some entry
      \<and> map_of entry ''transports'' = Some (JFlags (transports_of True True True True True True))"
proof -
  from for_languages_git_starts [OF offline_git_starts, of "''repos''" LANGUAGES 0 "[]"]
  obtain snap s' where run: "test_all_capabilities offline_world 0 ''repos'' = Inr (snap, s')"
    by (auto simp: test_all_capabilities_def)
  from python_in_LANGUAGES obtain config where c: "(''python'', config) \<in> set LANGUAGES"
    "cfg_known_transports config = transports_of True True True True True True" by blast
  from transports_from_configuration [OF run c(1)] c(2) run show ?thesis by auto
qed

text \<open>
  In the configuration, the build command and the version command of an implementation
  start the same executable as its worker command (or there is no version command). When
  that executable does not exist, one round of the loop stores the zero record.
\<close>

lemma missing_executable_round:
  assumes miss: "\<forall>s a cwd t. fst (subprocess_run W s (exe # a) cwd t) = Inl FileNotFoundError"
    and build: "cfg_build_cmd config = Some (exe # bargs)"
    and version: "cfg_version_cmd config = None \<or> (\<exists>vargs. cfg_version_cmd config = Some (exe # vargs))"
    and run: "test_language W repos_dir (name, config) s langs = Inr (langs', s')"
  shows "langs' = AList.update name
           (capability_record None config (fst zero_result) (snd zero_result)) langs"
proof -
  let ?dir = "repos_dir @ ''/'' @ ''vgi-rpc-'' @ name"
  have gone: "r = Inl FileNotFoundError"
    if "subprocess_run W s0 (exe # a) cwd t = (r, s1)" for s0 a cwd t r s1
    using miss [rule_format, of s0 a cwd t] that by simp
  have gv: "fst (get_version W s1 config ?dir) = None" for s1
    using version
  proof (elim disjE exE)
    assume "cfg_version_cmd config = None"
    then show ?thesis by (simp add: get_version_def)
  next
    fix vargs assume v: "cfg_version_cmd config = Some (exe # vargs)"
    obtain r s2 where r: "subprocess_run W s1 (exe # vargs) (Some ?dir) (Some 30) = (r, s2)"
      by (cases "subprocess_run W s1 (exe # vargs) (Some ?dir) (Some 30)")
    from gone [OF r] v r show ?thesis by (simp add: get_version_def)
  qed
  have bs: "fst (build_step W s2 config ?dir) = None" for s2
  proof -
    obtain r s3 where r: "subprocess_run W s2 (exe # bargs) (Some ?dir) (Some 120) = (r, s3)"
      by (cases "subprocess_run W s2 (exe # bargs) (Some ?dir) (Some 120)")
    from gone [OF r] build r show ?thesis
      by (simp add: build_step_def build_worker_def truthy_def)
  qed
  obtain c s1 where cl: "clone_or_pull W s (cfg_repo config) ?dir = (c, s1)"
    by (cases "clone_or_pull W s (cfg_repo config) ?dir")
  with run obtain cloned where c: "c = Inr cloned"
    by (cases c) (simp_all add: test_language_def)
  show ?thesis
  proof (cases "\<not> cloned \<and> \<not> path_exists W s1 ?dir")
    case True
    with run cl c show ?thesis by (simp add: test_language_def Let_def zero_result_def)
  next
    case False
    obtain v s2 where g: "get_version W s1 config ?dir = (v, s2)"
      by (cases "get_version W s1 config ?dir")
    obtain wc s3 where b: "build_step W s2 config ?dir = (wc, s3)"
      by (cases "build_step W s2 config ?dir")
    from gv [of s1] g have v: "v = None" by simp
    from bs [of s2] b have wc: "wc = None" by simp
    have pc: "probe_capabilities W s3 None ?dir = (zero_result, s3)"
      by (simp add: probe_capabilities_no_cmd)
    from run cl c False g b v wc pc show ?thesis
      by (auto simp: test_language_def Let_def zero_result_def)
  qed
qed

lemma LANGUAGES_same_executable:
  assumes "(name, config) \<in> set LANGUAGES" and "cfg_worker_cmd config = Some (exe # args)"
  shows "(\<exists>bargs. cfg_build_cmd config = Some (exe # bargs))
       \<and> (cfg_version_cmd config = None \<or> (\<exists>vargs. cfg_version_cmd config = Some (exe # vargs)))"
proof -
  from assms(1) have "name = ''python'' \<and> config = snd (LANGUAGES ! 0)
      \<or> name = ''typescript'' \<and> config = snd (LANGUAGES ! 1)
      \<or> name = ''go'' \<and> config = snd (LANGUAGES ! 2)
      \<or> name = ''cpp'' \<and> config = snd (LANGUAGES ! 3)"
    unfolding LANGUAGES_def by simp
  then show ?thesis
    using assms(2) unfolding LANGUAGES_def by (elim disjE conjE) simp_all
qed

text \<open>
  The record stored for an implementation whose executable does not exist, through the
  whole loop.
\<close>

lemma missing_executable_entry:
  assumes "(name, config) \<in> set LANGUAGES"
    and "cfg_worker_cmd config = Some (exe # args)"
    and "\<forall>s a cwd t. fst (subprocess_run W s (exe # a) cwd t) = Inl FileNotFoundError"
    and "test_all_capabilities W s repos_dir = Inr (snap, s')"
  shows "map_of (languages snap) name =
           Some (capability_record None config (fst zero_result) (snd zero_result))"
proof -
  let ?P = "\<lambda>n c entry. n = name \<and> c = config \<longrightarrow>
              entry = capability_record None config (fst zero_result) (snd zero_result)"
  have "\<exists>entry. map_of (languages snap) name = Some entry \<and> ?P name config entry"
  proof (rule test_all_records [where P = ?P, OF assms(4) _ assms(1)], intro allI impI)
    fix n c s0 l0 l1 s1
    assume run: "test_language W repos_dir (n, c) s0 l0 = Inr (l1, s1)"
    show "\<exists>entry. l1 = AList.update n entry l0 \<and> ?P n c entry"
    proof (cases "n = name \<and> c = config")
      case True
      from LANGUAGES_same_executable [OF assms(1,2)] obtain bargs where
        b: "cfg_build_cmd config = Some (exe # bargs)" and
        v: "cfg_version_cmd config = None \<or> (\<exists>vargs. cfg_version_cmd config = Some (exe # vargs))"
        by blast
      from run True have "test_language W repos_dir (name, config) s0 l0 = Inr (l1, s1)"
        by simp
      from missing_executable_round [OF assms(3) b v this] True show ?thesis by blast
    next
      case False
      from test_language_record [OF run] False show ?thesis by blast
    qed
  qed
  then show ?thesis by simp
qed

lemma no_uv_git_starts: "git_starts no_uv_world"
  by (simp add: git_starts_def no_uv_world_def conforming_world_def)

text \<open>
  C7. For a configured implementation whose worker command names an executable that does
  not exist (starting it raises \<open>FileNotFoundError\<close>), the record in every snapshot the
  program produces is the zero record: it has the seven fields, \<open>version\<close> is null, and
  \<open>patterns\<close> and \<open>features\<close> hold every key of the catalog with the value \<open>False\<close>; the
  other fields are those of the configuration.
\<close>

theorem missing_executable_zero_record:
  assumes "(name, config) \<in> set LANGUAGES"
    and "cfg_worker_cmd config = Some (exe # args)"
    and "\<forall>s a cwd t. fst (subprocess_run W s (exe # a) cwd t) = Inl FileNotFoundError"
    and "test_all_capabilities W s repos_dir = Inr (snap, s')"
  shows "\<exists>entry. map_of (languages snap) name = Some entry
        \<and> map fst entry = [''version'', ''repo'', ''docs'', ''package_url'', ''transports'',
                            ''patterns'', ''features'']
        \<and> map_of entry ''version'' = Some JNull
        \<and> map_of entry ''patterns'' =
            Some (JFlags [(''unary'', False), (''unary_void'', False), (''producer'', False),
                  (''producer_with_header'', False), (''exchange'', False),
                  (''exchange_with_header'', False)])
        \<and> map_of entry ''features'' =
            Some (JFlags [(''introspection'', False), (''client_logging'', False),
                  (''error_propagation'', False), (''complex_types'', False),
                  (''optional_types'', False), (''dataclass_types'', False),
                  (''annotated_types'', False), (''authentication'', False),
                  (''external_storage'', False), (''opentelemetry'', False)])
        \<and> map_of entry ''repo'' = Some (JStr (cfg_repo config))
        \<and> map_of entry ''docs'' =
            Some (case cfg_docs config of None \<Rightarrow> JNull | Some t \<Rightarrow> JStr t)
        \<and> map_of entry ''package_url'' =
            Some (case cfg_package_url config of None \<Rightarrow> JNull | Some t \<Rightarrow> JStr t)
        \<and> map_of entry ''transports'' = Some (JFlags (cfg_known_transports config))"
  using missing_executable_entry [OF assms]
  by (simp add: capability_record_def zero_result_def PATTERNS_def FEATURES_def opt_str_def)

theorem missing_executable_zero_record_witness:
  "\<exists>snap s' entry.
      test_all_capabilities no_uv_world 0 ''repos'' = Inr (snap, s')
      \<and> map_of (languages snap) ''python'' = Some entry
      \<and> map_of entry ''version'' = Some JNull
      \<and> map_of entry ''patterns'' =
            Some (JFlags [(''unary'', False), (''unary_void'', False), (''producer'', False),
                  (''producer_with_header'', False), (''exchange'', False),
                  (''exchange_with_header'', False)])
      \<and> map_of entry ''features'' =
            Some (JFlags [(''introspection'', False), (''client_logging'', False),
                  (''error_propagation'', False), (''complex_types'', False),
                  (''optional_types'', False), (''dataclass_types'', False),
                  (''annotated_types'', False), (''authentication'', False),
                  (''external_storage'', False), (''opentelemetry'', False)])
      \<and> map_of entry ''transports'' = Some (JFlags (transports_of True True True True True True))"
proof -
  from for_languages_git_starts [OF no_uv_git_starts, of "''repos''" LANGUAGES 0 "[]"]
  obtain snap s' where run: "test_all_capabilities no_uv_world 0 ''repos'' = Inr (snap, s')"
    by (auto simp: test_all_capabilities_def)
  from python_in_LANGUAGES obtain config where c: "(''python'', config) \<in> set LANGUAGES"
    "cfg_known_transports config = transports_of True True True True True True"
    "cfg_worker_cmd config = Some [''uv'', ''run'', ''python'', ''-m'', ''vgi_rpc.conformance.worker'']"
    by blast
  have miss: "\<forall>s a cwd t. fst (subprocess_run no_uv_world s (''uv'' # a) cwd t)
                = Inl FileNotFoundError"
    by (simp add: no_uv_world_def)
  from missing_executable_zero_record [OF c(1) c(3) miss run] c(2) run show ?thesis by auto
qed

text \<open>
  C8 fails on a host where \<open>git\<close> cannot be started: \<open>clone_or_pull\<close> has no handler for
  the \<open>FileNotFoundError\<close> of \<open>subprocess.run\<close> (\<open>get_version\<close>, \<open>build_worker\<close> and
  \<open>probe_capabilities\<close> have one), the exception leaves \<open>test_all_capabilities\<close> in the
  first round of the loop, and no snapshot, hence no record, is produced.
\<close>

theorem no_git_no_snapshot:
  "test_all_capabilities no_git_world 0 ''repos'' = Inl FileNotFoundError"
  by (simp add: test_all_capabilities_def LANGUAGES_def test_language_def clone_or_pull_def
        no_git_world_def conforming_world_def)

text \<open>
  Where \<open>git\<close> can be started, a snapshot is produced, it has a record for exactly the
  configured implementations, and every record has exactly the seven fields.
\<close>

lemma snapshot_complete:
  assumes "git_starts W"
  shows "\<exists>snap s'. test_all_capabilities W s repos_dir = Inr (snap, s')
           \<and> set (map fst (languages snap)) = set (map fst LANGUAGES)
           \<and> (\<forall>(name, config) \<in> set LANGUAGES.
                 \<exists>entry. map_of (languages snap) name = Some entry
                   \<and> map fst entry = record_fields)"
proof -
  from for_languages_git_starts [OF assms, of repos_dir LANGUAGES s "[]"]
  obtain langs s' where run: "for_languages W repos_dir LANGUAGES s [] = Inr (langs, s')"
    by blast
  have d: "distinct (map fst LANGUAGES)" by (simp add: LANGUAGES_names)
  have step: "\<forall>name config s0 l0 l1 s1.
           (name, config) \<in> set LANGUAGES \<longrightarrow>
           test_language W repos_dir (name, config) s0 l0 = Inr (l1, s1) \<longrightarrow>
           (\<exists>entry. l1 = AList.update name entry l0 \<and> map fst entry = record_fields)"
  proof (intro allI impI)
    fix name config s0 l0 l1 s1
    assume "test_language W repos_dir (name, config) s0 l0 = Inr (l1, s1)"
    from test_language_record [OF this]
    show "\<exists>entry. l1 = AList.update name entry l0 \<and> map fst entry = record_fields"
      by (auto simp: capability_record_def record_fields_def)
  qed
  from for_languages_records [OF run d step]
  have "\<forall>(name, config) \<in> set LANGUAGES.
          \<exists>entry. map_of langs name = Some entry \<and> map fst entry = record_fields"
    and "set (map fst langs) = set (map fst LANGUAGES)"
    by simp_all
  with run show ?thesis by (simp add: test_all_capabilities_def)
qed

end
